theory Spec2Isabelle
  imports Complex_Main "HOL-Library.Sublist"
begin

section \<open>JavaScript values\<close>

text \<open>
  The handler of \<^verbatim>\<open>POST /smart-search\<close> (src/index.js, lines 89-277) works on values that
  come out of \<^verbatim>\<open>JSON.parse\<close>, \<^verbatim>\<open>express.json()\<close> and \<^verbatim>\<open>response.json()\<close>, so a value is
  \<^verbatim>\<open>undefined\<close>, \<^verbatim>\<open>null\<close>, a boolean, a number, a string, an array or a plain object.
  A number is a double: it is \<^verbatim>\<open>NaN\<close>, an infinity or a finite value, and the finite values
  are kept as rationals (every double is one; \<^verbatim>\<open>-0\<close> and \<^verbatim>\<open>0\<close> are not told apart, as
  neither \<^verbatim>\<open>===\<close> nor \<^verbatim>\<open>>=\<close> tells them apart). A string is the list of its code units,
  each a \<^typ>\<open>char\<close>, so the code units from 0x100 on are left out of the alphabet.
  A plain object is the list of its own properties; a lookup takes the first binding of a key.
\<close>

datatype jsnum = NaN | NegInf | Fin rat | PosInf

datatype jsval =
    JUndefined
  | JNull
  | JBool bool
  | JNum jsnum
  | JStr string
  | JArr "jsval list"
  | JObj "(string \<times> jsval) list"

datatype js_error = TypeError

definition nullish :: "jsval \<Rightarrow> bool" where
  "nullish v = (v = JUndefined \<or> v = JNull)"

text \<open>Truthiness, as \<^verbatim>\<open>!x\<close>, \<^verbatim>\<open>x && y\<close> and \<^verbatim>\<open>x || y\<close> test it.\<close>

fun truthy :: "jsval \<Rightarrow> bool" where
  "truthy JUndefined = False"
| "truthy JNull = False"
| "truthy (JBool b) = b"
| "truthy (JNum n) = (n \<noteq> NaN \<and> n \<noteq> Fin 0)"
| "truthy (JStr s) = (s \<noteq> [])"
| "truthy (JArr xs) = True"
| "truthy (JObj kvs) = True"

fun isArray :: "jsval \<Rightarrow> bool" where
  "isArray (JArr xs) = True"
| "isArray v = False"

fun elems :: "jsval \<Rightarrow> jsval list" where
  "elems (JArr xs) = xs"
| "elems v = []"

text \<open>
  \<^verbatim>\<open>x.k\<close> on a value that is neither \<^verbatim>\<open>null\<close> nor \<^verbatim>\<open>undefined\<close>, for the property names
  this handler reads (\<^verbatim>\<open>songs\<close>, \<^verbatim>\<open>mySuggestion\<close>, \<^verbatim>\<open>data\<close>, \<^verbatim>\<open>results\<close>, \<^verbatim>\<open>name\<close>, \<^verbatim>\<open>id\<close>,
  \<^verbatim>\<open>artists\<close>, \<^verbatim>\<open>primary\<close>, \<^verbatim>\<open>album\<close>, \<^verbatim>\<open>language\<close>, \<^verbatim>\<open>year\<close>, \<^verbatim>\<open>playCount\<close>, \<^verbatim>\<open>image\<close>,
  \<^verbatim>\<open>url\<close>, \<^verbatim>\<open>downloadUrl\<close>). None of them is an index, \<^verbatim>\<open>length\<close> or a member of a
  built-in prototype, so only a plain object can hold one.
\<close>

fun own_prop :: "jsval \<Rightarrow> string \<Rightarrow> jsval" where
  "own_prop (JObj kvs) k = (case map_of kvs k of None \<Rightarrow> JUndefined | Some v \<Rightarrow> v)"
| "own_prop v k = JUndefined"

text \<open>\<^verbatim>\<open>x.k\<close> where nothing guards \<^verbatim>\<open>x\<close>: a TypeError on \<^verbatim>\<open>null\<close> and \<^verbatim>\<open>undefined\<close>.\<close>

definition member :: "jsval \<Rightarrow> string \<Rightarrow> js_error + jsval" where
  "member v k = (if nullish v then Inl TypeError else Inr (own_prop v k))"

text \<open>Optional chaining \<^verbatim>\<open>x?.k\<close> and \<^verbatim>\<open>x?.[i]\<close>, and nullish coalescing \<^verbatim>\<open>a ?? b\<close>.\<close>

definition opt :: "jsval \<Rightarrow> string \<Rightarrow> jsval" where
  "opt v k = (if nullish v then JUndefined else own_prop v k)"

fun index_key :: "nat \<Rightarrow> string" where
  "index_key n =
     (if n < 10 then [char_of (48 + n)]
      else index_key (n div 10) @ [char_of (48 + n mod 10)])"

fun at_index :: "jsval \<Rightarrow> nat \<Rightarrow> jsval" where
  "at_index (JArr xs) i = (if i < length xs then xs ! i else JUndefined)"
| "at_index (JStr s) i = (if i < length s then JStr [s ! i] else JUndefined)"
| "at_index (JObj kvs) i = own_prop (JObj kvs) (index_key i)"
| "at_index v i = JUndefined"

definition opt_at :: "jsval \<Rightarrow> nat \<Rightarrow> jsval" where
  "opt_at v i = (if nullish v then JUndefined else at_index v i)"

definition coalesce :: "jsval \<Rightarrow> jsval \<Rightarrow> jsval" where
  "coalesce a b = (if nullish a then b else a)"

text \<open>\<^verbatim>\<open>x === n\<close> for a number \<^verbatim>\<open>n\<close>: no conversion, and \<^verbatim>\<open>NaN\<close> equals nothing.\<close>

fun strict_equals_number :: "jsval \<Rightarrow> jsnum \<Rightarrow> bool" where
  "strict_equals_number (JNum m) n = (m \<noteq> NaN \<and> n \<noteq> NaN \<and> m = n)"
| "strict_equals_number v n = False"

section \<open>The collaborators of one request\<close>

text \<open>
  Everything the handler cannot decide by itself is a field of the world of one request:
  the two answers of the text oracle (\<^verbatim>\<open>generateContent\<close> followed by \<^verbatim>\<open>response.text()\<close>;
  \<open>None\<close> when either throws), the outcome of the catalog search started for the title at
  each position, and the built-ins \<^verbatim>\<open>JSON.parse\<close> (\<open>None\<close> for a SyntaxError), the
  conversion of a string to a number and of a number to a string.
\<close>

datatype prompt =
    SuggestPrompt jsval
  | FilterPrompt string nat "jsval list"

datatype fetch_result =
    FetchThrows
  | HttpResponse bool "jsval option"

record world =
  generateContent :: "prompt \<Rightarrow> string option"
  fetch :: "nat \<Rightarrow> jsval \<Rightarrow> fetch_result"
  JSON_parse :: "string \<Rightarrow> jsval option"
  StringToNumber :: "string \<Rightarrow> jsnum"
  NumberToString :: "jsnum \<Rightarrow> string"

section \<open>Conversions and the comparison with the threshold\<close>

fun join :: "string \<Rightarrow> string list \<Rightarrow> string" where
  "join sep [] = []"
| "join sep [x] = x"
| "join sep (x # y # ys) = x @ sep @ join sep (y # ys)"

text \<open>
  \<^verbatim>\<open>ToString\<close>, as a template literal applies it. An array joins the strings of its elements
  (nothing for \<^verbatim>\<open>null\<close> and \<^verbatim>\<open>undefined\<close>). A plain object answers \<^verbatim>\<open>[object Object]\<close> from
  the inherited \<^verbatim>\<open>toString\<close>; an own property \<^verbatim>\<open>toString\<close> hides the inherited method, is
  not callable (it came from JSON), and the conversion throws a TypeError.
\<close>

fun ToString :: "world \<Rightarrow> jsval \<Rightarrow> js_error + string" where
  "ToString w JUndefined = Inr ''undefined''"
| "ToString w JNull = Inr ''null''"
| "ToString w (JBool b) = Inr (if b then ''true'' else ''false'')"
| "ToString w (JNum n) = Inr (NumberToString w n)"
| "ToString w (JStr s) = Inr s"
| "ToString w (JArr xs) =
     (let parts = map (\<lambda>x. if nullish x then Inr [] else ToString w x) xs
      in if list_ex isl parts then Inl TypeError else Inr (join '','' (map projr parts)))"
| "ToString w (JObj kvs) =
     (if ''toString'' \<in> fst ` set kvs then Inl TypeError else Inr ''[object Object]'')"

text \<open>
  \<^verbatim>\<open>ToNumber\<close>: an array or object is first made primitive, which for values that came from
  JSON ends in the string of \<open>ToString\<close> (the inherited \<^verbatim>\<open>valueOf\<close> returns the object itself).
\<close>

fun ToNumber :: "world \<Rightarrow> jsval \<Rightarrow> js_error + jsnum" where
  "ToNumber w JUndefined = Inr NaN"
| "ToNumber w JNull = Inr (Fin 0)"
| "ToNumber w (JBool b) = Inr (Fin (if b then 1 else 0))"
| "ToNumber w (JNum n) = Inr n"
| "ToNumber w (JStr s) = Inr (StringToNumber w s)"
| "ToNumber w v =
     (case ToString w v of Inl e \<Rightarrow> Inl e | Inr s \<Rightarrow> Inr (StringToNumber w s))"

text \<open>\<open>x < y\<close> on numbers; \<open>None\<close> is the comparison's \<^verbatim>\<open>undefined\<close>, for a \<^verbatim>\<open>NaN\<close> operand.\<close>

fun number_lessThan :: "jsnum \<Rightarrow> jsnum \<Rightarrow> bool option" where
  "number_lessThan NaN y = None"
| "number_lessThan x NaN = None"
| "number_lessThan (Fin a) (Fin b) = Some (a < b)"
| "number_lessThan x NegInf = Some False"
| "number_lessThan NegInf y = Some True"
| "number_lessThan PosInf y = Some False"
| "number_lessThan (Fin a) PosInf = Some True"

text \<open>
  \<^verbatim>\<open>x >= n\<close> and \<^verbatim>\<open>x < n\<close> for a number \<^verbatim>\<open>n\<close> on the right (so the comparison of two strings
  cannot arise): \<^verbatim>\<open>>=\<close> is false when \<^verbatim>\<open><\<close> is true or undefined.
\<close>

definition greaterEqual_number :: "world \<Rightarrow> jsval \<Rightarrow> jsnum \<Rightarrow> js_error + bool" where
  "greaterEqual_number w x n =
     (case ToNumber w x of
        Inl e \<Rightarrow> Inl e
      | Inr nx \<Rightarrow> Inr (number_lessThan nx n = Some False))"

definition lessThan_number :: "world \<Rightarrow> jsval \<Rightarrow> jsnum \<Rightarrow> js_error + bool" where
  "lessThan_number w x n =
     (case ToNumber w x of
        Inl e \<Rightarrow> Inl e
      | Inr nx \<Rightarrow> Inr (number_lessThan nx n = Some True))"

section \<open>Cleaning the oracle's text\<close>

text \<open>
  Lines 135-138 and 236-239:
  \<^verbatim>\<open>output.replace(/```(json)?\n/g, "").replace(/```/g, "").trim()\<close>.
  A global replace scans from the left; where the pattern matches, the match is dropped and
  the scan goes on behind it, elsewhere one character is kept. \<^verbatim>\<open>trim\<close> drops white space
  and line terminators at both ends (those among the characters of \<^typ>\<open>char\<close>).
\<close>

definition fence :: string where
  "fence = ''```''"

definition newline :: char where
  "newline = CHR 0x0A"

fun replace_fence_newline :: "string \<Rightarrow> string" where
  "replace_fence_newline [] = []"
| "replace_fence_newline (c # cs) =
     (if prefix (fence @ ''json'' @ [newline]) (c # cs) then replace_fence_newline (drop 7 cs)
      else if prefix (fence @ [newline]) (c # cs) then replace_fence_newline (drop 3 cs)
      else c # replace_fence_newline cs)"

fun replace_fence :: "string \<Rightarrow> string" where
  "replace_fence [] = []"
| "replace_fence (c # cs) =
     (if prefix fence (c # cs) then replace_fence (drop 2 cs)
      else c # replace_fence cs)"

definition white_space :: "char \<Rightarrow> bool" where
  "white_space c = (c \<in> {CHR 0x09, CHR 0x0A, CHR 0x0B, CHR 0x0C, CHR 0x0D, CHR 0x20, CHR 0xA0})"

definition trim :: "string \<Rightarrow> string" where
  "trim s = rev (dropWhile white_space (rev (dropWhile white_space s)))"

definition clean :: "string \<Rightarrow> string" where
  "clean output = trim (replace_fence (replace_fence_newline output))"

section \<open>Candidates\<close>

text \<open>
  Lines 155 and 170-180: one catalog record becomes one candidate. The field \<^verbatim>\<open>id\<close> is
  \<open>song_id\<close> here and \<^verbatim>\<open>image\<close> keeps its name.
\<close>

record candidate =
  title :: jsval
  song_id :: jsval
  artist :: jsval
  album :: jsval
  language :: jsval
  year :: jsval
  playCount :: jsval
  image :: jsval
  downloadUrls :: jsval

definition placeholderImage :: jsval where
  "placeholderImage = JStr ''https://via.placeholder.com/150''"

definition to_candidate :: "jsval \<Rightarrow> candidate" where
  "to_candidate songData =
     \<lparr> title = coalesce (opt songData ''name'') (JStr ''Unknown Song''),
       song_id = opt songData ''id'',
       artist = coalesce (opt (opt_at (opt (opt songData ''artists'') ''primary'') 0) ''name'')
                  (JStr ''Unknown Artist''),
       album = coalesce (opt (opt songData ''album'') ''name'') (JStr ''Unknown Album''),
       language = coalesce (opt songData ''language'') (JStr ''Unknown Language''),
       year = coalesce (opt songData ''year'') (JStr ''Unknown Year''),
       playCount = coalesce (opt songData ''playCount'') (JNum (Fin 0)),
       image = coalesce (opt (opt_at (opt songData ''image'') 2) ''url'') placeholderImage,
       downloadUrls = coalesce (opt songData ''downloadUrl'') (JArr []) \<rparr>"

section \<open>One catalog search per title\<close>

text \<open>
  Lines 157-192, the task of one title: \<open>None\<close> is the \<^verbatim>\<open>null\<close> it returns when the fetch
  throws, the status is not a success or the body is not JSON; a body of another shape gives
  the empty array.
\<close>

fun per_title :: "fetch_result \<Rightarrow> candidate list option" where
  "per_title FetchThrows = None"
| "per_title (HttpResponse ok body) =
     (if \<not> ok then None
      else case body of
        None \<Rightarrow> None
      | Some data \<Rightarrow>
          if truthy data \<and> truthy (own_prop data ''data'')
             \<and> isArray (own_prop (own_prop data ''data'') ''results'')
          then Some (map to_candidate (elems (own_prop (own_prop data ''data'') ''results'')))
          else Some [])"

text \<open>
  Lines 195-197: \<^verbatim>\<open>FilterSongs.flat()\<close> opens each array by one level and leaves a \<^verbatim>\<open>null\<close>
  where it is; the filter then keeps a song that is not \<^verbatim>\<open>null\<close> and whose play count
  compares \<^verbatim>\<open>>= 90000\<close>. A comparison that throws ends the filter.
\<close>

definition flat :: "'a list option list \<Rightarrow> 'a option list" where
  "flat xss = concat (map (\<lambda>r. case r of None \<Rightarrow> [None] | Some xs \<Rightarrow> map Some xs) xss)"

fun filter_songs :: "world \<Rightarrow> candidate option list \<Rightarrow> js_error + candidate list" where
  "filter_songs w [] = Inr []"
| "filter_songs w (None # songs) = filter_songs w songs"
| "filter_songs w (Some song # songs) =
     (case greaterEqual_number w (playCount song) (Fin 90000) of
        Inl e \<Rightarrow> Inl e
      | Inr keep \<Rightarrow>
          (case filter_songs w songs of
             Inl e \<Rightarrow> Inl e
           | Inr rest \<Rightarrow> Inr (if keep then song # rest else rest)))"

definition finalFilteredSongs :: "world \<Rightarrow> candidate list option list \<Rightarrow> js_error + candidate list" where
  "finalFilteredSongs w FilterSongs = filter_songs w (flat FilterSongs)"

section \<open>The relevance flags\<close>

text \<open>Lines 198-209: the projection of a candidate that goes into the second prompt.\<close>

definition FilteredSongsForAI :: "candidate list \<Rightarrow> jsval list" where
  "FilteredSongsForAI songs =
     map (\<lambda>song. JObj [(''title'', title song), (''album'', album song), (''artist'', artist song),
                        (''language'', language song), (''year'', year song),
                        (''playCount'', playCount song)]) songs"

text \<open>\<^verbatim>\<open>xs.filter((x, index) => p)\<close>: the callback sees each element with its index.\<close>

fun filter_index :: "('a \<Rightarrow> nat \<Rightarrow> bool) \<Rightarrow> nat \<Rightarrow> 'a list \<Rightarrow> 'a list" where
  "filter_index p i [] = []"
| "filter_index p i (x # xs) =
     (if p x i then x # filter_index p (Suc i) xs else filter_index p (Suc i) xs)"

text \<open>\<^verbatim>\<open>xs[i]\<close> on an array: \<^verbatim>\<open>undefined\<close> beyond its end.\<close>

definition element :: "jsval list \<Rightarrow> nat \<Rightarrow> jsval" where
  "element xs i = (if i < length xs then xs ! i else JUndefined)"

text \<open>Lines 268-270.\<close>

definition actuallyFinalFilteredSongs :: "candidate list \<Rightarrow> jsval list \<Rightarrow> candidate list" where
  "actuallyFinalFilteredSongs songs mySuggestion =
     filter_index (\<lambda>song index. strict_equals_number (element mySuggestion index) (Fin 1)) 0 songs"

section \<open>The handler\<close>

datatype payload = suggestedSongs "candidate list" | error string

datatype response = Response nat payload

datatype event = OracleCall prompt | CatalogSearch jsval

text \<open>Lines 273-276: what the outer \<^verbatim>\<open>catch\<close> answers.\<close>

definition server_error :: response where
  "server_error = Response 500 (error ''Error generating song suggestions'')"

text \<open>Lines 251-272, from the parsed answer of the second oracle call.\<close>

definition apply_suggestion :: "candidate list \<Rightarrow> jsval \<Rightarrow> response" where
  "apply_suggestion songs filterSuggestions =
     (if \<not> truthy filterSuggestions \<or> \<not> isArray (own_prop filterSuggestions ''mySuggestion'')
      then Response 500 (error ''Unexpected filter JSON format'')
      else
        let mySuggestion = elems (own_prop filterSuggestions ''mySuggestion'') in
        if length mySuggestion \<noteq> length songs
        then Response 500 (error ''Suggestion array length mismatch'')
        else Response 200 (suggestedSongs (actuallyFinalFilteredSongs songs mySuggestion)))"

text \<open>
  Lines 198-272. The template literal of the second prompt converts the user input to a
  string, which can throw; the events are the calls made, in order.
\<close>

definition relevance_stage :: "world \<Rightarrow> jsval \<Rightarrow> candidate list \<Rightarrow> event list \<times> response" where
  "relevance_stage w userInput songs =
     (case ToString w userInput of
        Inl e \<Rightarrow> ([], server_error)
      | Inr shown \<Rightarrow>
          (let Filterprompt =
                 FilterPrompt shown (length (FilteredSongsForAI songs)) (FilteredSongsForAI songs)
           in (case generateContent w Filterprompt of
                 None \<Rightarrow> ([OracleCall Filterprompt], server_error)
               | Some filterOutput \<Rightarrow>
                   ([OracleCall Filterprompt],
                    (case JSON_parse w (clean filterOutput) of
                       None \<Rightarrow> Response 500 (error ''Failed to parse filter response from AI'')
                     | Some filterSuggestions \<Rightarrow> apply_suggestion songs filterSuggestions)))))"

text \<open>Lines 195-272: what follows once every search task has settled.\<close>

definition after_search :: "world \<Rightarrow> jsval \<Rightarrow> candidate list option list \<Rightarrow> event list \<times> response" where
  "after_search w userInput FilterSongs =
     (case finalFilteredSongs w FilterSongs of
        Inl e \<Rightarrow> ([], server_error)
      | Inr songs \<Rightarrow> relevance_stage w userInput songs)"

text \<open>
  Lines 157-192, the task of the title at one position. \<^verbatim>\<open>encodeURIComponent(song)\<close> is
  evaluated first and converts the title to a string; when that throws, the \<^verbatim>\<open>catch\<close>
  returns \<^verbatim>\<open>null\<close> and no request is made. (The escaped text itself plays no part; the
  URIError of a lone surrogate cannot arise among the characters of \<^typ>\<open>char\<close>.) Otherwise
  the request is made and its outcome decides. The task gives the requests it made and the
  value it resolves to.
\<close>

definition search_task :: "world \<Rightarrow> nat \<Rightarrow> jsval \<Rightarrow> event list \<times> candidate list option" where
  "search_task w i song =
     (case ToString w song of
        Inl e \<Rightarrow> ([], None)
      | Inr query \<Rightarrow> ([CatalogSearch song], per_title (fetch w i song)))"

text \<open>Lines 156-193: \<^verbatim>\<open>Promise.all\<close> of the tasks, one slot per title in the titles' order.\<close>

definition FilterSongs :: "world \<Rightarrow> jsval list \<Rightarrow> candidate list option list" where
  "FilterSongs w songs = map (\<lambda>(i, song). snd (search_task w i song)) (enumerate 0 songs)"

definition requests :: "world \<Rightarrow> jsval list \<Rightarrow> event list" where
  "requests w songs = concat (map (\<lambda>(i, song). fst (search_task w i song)) (enumerate 0 songs))"

text \<open>Lines 89-277, behind the API-key check.\<close>

definition smart_search :: "world \<Rightarrow> jsval \<Rightarrow> event list \<times> response" where
  "smart_search w body =
     (case member body ''songs'' of
        Inl e \<Rightarrow> ([], server_error)
      | Inr given \<Rightarrow>
          (let userInput = (if truthy given then given else JArr []);
               prompt = SuggestPrompt userInput
           in (case generateContent w prompt of
                 None \<Rightarrow> ([OracleCall prompt], server_error)
               | Some output \<Rightarrow>
                   (case JSON_parse w (clean output) of
                      None \<Rightarrow>
                        ([OracleCall prompt], Response 500 (error ''Failed to parse response from AI''))
                    | Some suggestions \<Rightarrow>
                        (if \<not> truthy suggestions \<or> \<not> isArray (own_prop suggestions ''songs'')
                         then ([OracleCall prompt], Response 500 (error ''Unexpected JSON format''))
                         else
                           (let songs = elems (own_prop suggestions ''songs'');
                                (events, answer) = after_search w userInput (FilterSongs w songs)
                            in (OracleCall prompt # requests w songs @ events, answer)))))))"

section \<open>Notions of the specification\<close>

text \<open>
  The shape of a catalog answer, the failure of a search, the raw records of a search and
  the value present at a path are written here from the specification's words, with no use
  of the handler's functions; the theorems compare the handler with them.

  The expected shape of a catalog answer is an object whose \<^verbatim>\<open>data\<close> is an object whose
  \<^verbatim>\<open>results\<close> is an array; \<open>results_of\<close> gives that array of raw records.
\<close>

fun results_of :: "jsval \<Rightarrow> jsval list option" where
  "results_of (JObj kvs) =
     (case map_of kvs ''data'' of
        Some (JObj d) \<Rightarrow> (case map_of d ''results'' of Some (JArr rs) \<Rightarrow> Some rs | _ \<Rightarrow> None)
      | _ \<Rightarrow> None)"
| "results_of v = None"


text \<open>The raw records a search returned, in the catalog's order; none when it failed.\<close>

fun results :: "fetch_result \<Rightarrow> jsval list" where
  "results (HttpResponse True (Some data)) = (case results_of data of None \<Rightarrow> [] | Some rs \<Rightarrow> rs)"
| "results r = []"

text \<open>A title can be put into a query when its conversion to a string does not throw.\<close>

definition encodable :: "world \<Rightarrow> jsval \<Rightarrow> bool" where
  "encodable w t = (\<not> isl (ToString w t))"

text \<open>
  What the title at a position contributes: one candidate for each raw record of its search,
  in the catalog's order; nothing when the title cannot be put into a query.
\<close>

definition contribution :: "world \<Rightarrow> nat \<Rightarrow> jsval \<Rightarrow> candidate list" where
  "contribution w i t =
     (if encodable w t then map to_candidate (results (fetch w i t)) else [])"

text \<open>
  A path into a value, and the value present at it: absent when a step leads nowhere
  (a missing key, an index beyond the end, a step into something that has no parts) or when
  what is found is \<^verbatim>\<open>null\<close> or \<^verbatim>\<open>undefined\<close>.
\<close>

datatype step = Key string | Index nat

fun child :: "jsval \<Rightarrow> step \<Rightarrow> jsval option" where
  "child (JObj kvs) (Key k) = map_of kvs k"
| "child (JObj kvs) (Index i) = map_of kvs (index_key i)"
| "child (JArr xs) (Index i) = (if i < length xs then Some (xs ! i) else None)"
| "child (JStr s) (Index i) = (if i < length s then Some (JStr [s ! i]) else None)"
| "child v p = None"

fun present :: "jsval \<Rightarrow> step list \<Rightarrow> jsval option" where
  "present v [] = (if v = JNull \<or> v = JUndefined then None else Some v)"
| "present v (p # path) = (case child v p of None \<Rightarrow> None | Some u \<Rightarrow> present u path)"

text \<open>The candidates the handler makes of one search's outcome.\<close>

definition hits :: "fetch_result \<Rightarrow> candidate list" where
  "hits r = (case per_title r of None \<Rightarrow> [] | Some songs \<Rightarrow> songs)"

text \<open>A candidate passes the threshold; the comparison of a candidate throws.\<close>

definition retained :: "world \<Rightarrow> candidate \<Rightarrow> bool" where
  "retained w song = (greaterEqual_number w (playCount song) (Fin 90000) = Inr True)"

definition throws :: "world \<Rightarrow> candidate \<Rightarrow> bool" where
  "throws w song = isl (greaterEqual_number w (playCount song) (Fin 90000))"

section \<open>Scenarios\<close>

text \<open>
  A world for a concrete run: the oracle answers \<open>output\<close> to the first prompt and
  \<open>filterOutput\<close> to the second, the catalog answers by \<open>searches\<close>, and \<open>parses\<close> lists what
  \<^verbatim>\<open>JSON.parse\<close> returns for the texts that occur (a SyntaxError for every other text). The
  play counts of the scenarios are numbers and their user inputs are strings or arrays of
  strings, so the two numeric conversions are never consulted.
\<close>

definition scenario ::
  "string \<Rightarrow> (nat \<Rightarrow> jsval \<Rightarrow> fetch_result) \<Rightarrow> string \<Rightarrow> (string \<times> jsval) list \<Rightarrow> world" where
  "scenario output searches filterOutput parses =
     \<lparr> generateContent = (\<lambda>p. case p of SuggestPrompt u \<Rightarrow> Some output
                                      | FilterPrompt u n xs \<Rightarrow> Some filterOutput),
       fetch = searches,
       JSON_parse = map_of parses,
       StringToNumber = (\<lambda>s. NaN),
       NumberToString = (\<lambda>n. []) \<rparr>"

definition hit :: "string \<Rightarrow> string \<Rightarrow> rat \<Rightarrow> jsval" where
  "hit ident name plays =
     JObj [(''id'', JStr ident), (''name'', JStr name), (''playCount'', JNum (Fin plays))]"

definition found :: "jsval list \<Rightarrow> fetch_result" where
  "found records =
     HttpResponse True
       (Some (JObj [(''success'', JBool True), (''data'', JObj [(''results'', JArr records)])]))"

text \<open>
  The relevance answer has two flags for three candidates: each of the three titles finds
  one song above the threshold.
\<close>

definition mismatch_world :: world where
  \<open>mismatch_world =
     scenario (fence @ ''json'' @ [newline] @ ''{"songs":["A","B","C"]}'' @ [newline] @ fence)
       (\<lambda>i title. found [hit ''7'' ''A'' 500000])
       ''{"mySuggestion":[1,0]}''
       [(''{"songs":["A","B","C"]}'', JObj [(''songs'', JArr [JStr ''A'', JStr ''B'', JStr ''C''])]),
        (''{"mySuggestion":[1,0]}'', JObj [(''mySuggestion'', JArr [JNum (Fin 1), JNum (Fin 0)])])]\<close>

text \<open>
  One title, two catalog matches with play counts 500000 and 1000, relevance 1 for the
  candidate that is left.
\<close>

definition threshold_world :: world where
  \<open>threshold_world =
     scenario ''{"songs":["Shape of You - Ed Sheeran"]}''
       (\<lambda>i title. found [hit ''1'' ''Shape of You'' 500000, hit ''2'' ''Shape of You (Cover)'' 1000])
       ''{"mySuggestion":[1]}''
       [(''{"songs":["Shape of You - Ed Sheeran"]}'',
           JObj [(''songs'', JArr [JStr ''Shape of You - Ed Sheeran''])]),
        (''{"mySuggestion":[1]}'', JObj [(''mySuggestion'', JArr [JNum (Fin 1)])])]\<close>


text \<open>
  Two titles whose searches return the same four records: a song, a song below the
  threshold, the first song again and a third song.
\<close>

definition duplicate_world :: world where
  \<open>duplicate_world =
     scenario ''{"songs":["A","A (Live)"]}''
       (\<lambda>i title. found [hit ''7'' ''A'' 500000, hit ''8'' ''A (Demo)'' 10,
                            hit ''7'' ''A'' 500000, hit ''9'' ''Z'' 600000])
       ''{"mySuggestion":[1,0,0,0,0,0]}''
       [(''{"songs":["A","A (Live)"]}'', JObj [(''songs'', JArr [JStr ''A'', JStr ''A (Live)''])]),
        (''{"mySuggestion":[1,0,0,0,0,0]}'',
           JObj [(''mySuggestion'', JArr [JNum (Fin 1), JNum (Fin 0), JNum (Fin 0),
                                          JNum (Fin 0), JNum (Fin 0), JNum (Fin 0)])])]\<close>




text \<open>A fenced answer whose payload holds three backticks inside a title.\<close>

definition fenced_reply :: string where
  \<open>fenced_reply = fence @ ''json'' @ [newline] @ ''{"songs":["a```b"]}'' @ [newline] @ fence\<close>

text \<open>The catalog record of the only match has no \<^verbatim>\<open>id\<close>.\<close>

definition no_id_world :: world where
  \<open>no_id_world =
     scenario ''{"songs":["A"]}''
       (\<lambda>i title. found [JObj [(''name'', JStr ''A''), (''playCount'', JNum (Fin 500000))]])
       ''{"mySuggestion":[1]}''
       [(''{"songs":["A"]}'', JObj [(''songs'', JArr [JStr ''A''])]),
        (''{"mySuggestion":[1]}'', JObj [(''mySuggestion'', JArr [JNum (Fin 1)])])]\<close>

text \<open>
  The first answer is \<open>fenced_reply\<close>; \<^verbatim>\<open>JSON.parse\<close> is listed for its payload and for the
  payload without the three backticks.
\<close>

definition backtick_world :: world where
  \<open>backtick_world =
     scenario fenced_reply
       (\<lambda>i title. found [hit ''7'' ''ab'' 500000])
       ''{"mySuggestion":[1]}''
       [(''{"songs":["a```b"]}'', JObj [(''songs'', JArr [JStr ''a```b''])]),
        (''{"songs":["ab"]}'', JObj [(''songs'', JArr [JStr ''ab''])]),
        (''{"mySuggestion":[1]}'', JObj [(''mySuggestion'', JArr [JNum (Fin 1)])])]\<close>

section \<open>Runs of the handler\<close>

lemma smart_search_run:
  assumes "member body ''songs'' = Inr given"
    and "userInput = (if truthy given then given else JArr [])"
    and "generateContent w (SuggestPrompt userInput) = Some output"
    and "JSON_parse w (clean output) = Some suggestions"
    and "truthy suggestions"
    and "own_prop suggestions ''songs'' = JArr titles"
  shows "smart_search w body =
           (OracleCall (SuggestPrompt userInput) # requests w titles
              @ fst (after_search w userInput (FilterSongs w titles)),
            snd (after_search w userInput (FilterSongs w titles)))"
  using assms by (simp add: smart_search_def Let_def split_beta)

lemma requests_from:
  "concat (map (\<lambda>(i, song). fst (search_task w i song)) (enumerate n songs))
     = map CatalogSearch (filter (encodable w) songs)"
  by (induction songs arbitrary: n)
     (auto simp: search_task_def encodable_def split: sum.splits)

lemma requests_encodable: "requests w songs = map CatalogSearch (filter (encodable w) songs)"
  by (simp add: requests_def requests_from)



lemma relevance_stage_run:
  assumes "ToString w userInput = Inr shown"
    and "generateContent w (FilterPrompt shown (length songs) (FilteredSongsForAI songs))
           = Some filterOutput"
    and "JSON_parse w (clean filterOutput) = Some filterSuggestions"
  shows "relevance_stage w userInput songs =
           ([OracleCall (FilterPrompt shown (length songs) (FilteredSongsForAI songs))],
            apply_suggestion songs filterSuggestions)"
  using assms by (simp add: relevance_stage_def Let_def FilteredSongsForAI_def)

section \<open>Filtering by index\<close>

lemma filter_index_zip:
  "filter_index p i xs = map fst (filter (\<lambda>(x, j). p x j) (zip xs [i..<i + length xs]))"
proof (induction xs arbitrary: i)
  case Nil
  then show ?case by simp
next
  case (Cons x xs)
  have "[i..<i + length (x # xs)] = i # [Suc i..<Suc i + length xs]"
    by (simp add: upt_rec)
  then show ?case using Cons.IH [of "Suc i"] by simp
qed

lemma filter_index_nths:
  "filter_index p 0 xs = nths xs {j. j < length xs \<and> p (xs ! j) j}"
proof -
  have "filter (\<lambda>(x, j). p x j) (zip xs [0..<length xs])
      = filter (\<lambda>q. snd q \<in> {j. j < length xs \<and> p (xs ! j) j}) (zip xs [0..<length xs])"
    by (rule filter_cong) (auto simp: set_zip)
  then show ?thesis
    by (simp add: filter_index_zip nths_def)
qed

lemma filter_index_subseq: "subseq (filter_index p i xs) xs"
  by (induction xs arbitrary: i) auto

lemma strict_equals_number_one:
  "strict_equals_number v (Fin 1) = (v = JNum (Fin 1))"
  by (cases v) auto

lemma actually_nths:
  assumes "length mySuggestion = length songs"
  shows "actuallyFinalFilteredSongs songs mySuggestion
       = nths songs {i. i < length songs \<and> mySuggestion ! i = JNum (Fin 1)}"
proof -
  have "{j. j < length songs \<and> strict_equals_number (element mySuggestion j) (Fin 1)}
      = {i. i < length songs \<and> mySuggestion ! i = JNum (Fin 1)}"
    using assms by (auto simp: element_def strict_equals_number_one)
  then show ?thesis
    by (simp add: actuallyFinalFilteredSongs_def filter_index_nths)
qed

lemma nths_flags:
  "length songs = length flags \<Longrightarrow>
   nths songs {i. i < length songs \<and> flags ! i = f}
     = map fst (filter (\<lambda>(s, flag). flag = f) (zip songs flags))"
  by (induction songs flags rule: list_induct2) (simp_all add: nths_Cons)

lemma actually_zip:
  assumes "length mySuggestion = length songs"
  shows "actuallyFinalFilteredSongs songs mySuggestion
       = map fst (filter (\<lambda>(s, flag). flag = JNum (Fin 1)) (zip songs mySuggestion))"
  using assms actually_nths [OF assms] nths_flags [of songs mySuggestion "JNum (Fin 1)"]
  by simp

lemma actually_subseq: "subseq (actuallyFinalFilteredSongs songs mySuggestion) songs"
  by (simp add: actuallyFinalFilteredSongs_def filter_index_subseq)

section \<open>The alignment check\<close>

text \<open>
  C1. For every candidate sequence and every parsed relevance vector, if the vector's length
  is not exactly the candidate sequence's length, the request fails with the alignment
  error: status 500, the message of the length check and no \<^verbatim>\<open>suggestedSongs\<close>; nothing is
  truncated or padded. The hypotheses name the values of a run that reaches the check at
  lines 256-266: the user input, the titles of the first answer, the candidates left after
  the threshold and the parsed second answer.
\<close>

theorem alignment_mismatch_fails:
  assumes "member body ''songs'' = Inr given"
    and "userInput = (if truthy given then given else JArr [])"
    and "generateContent w (SuggestPrompt userInput) = Some output"
    and "JSON_parse w (clean output) = Some suggestions"
    and "truthy suggestions"
    and "own_prop suggestions ''songs'' = JArr titles"
    and "finalFilteredSongs w (FilterSongs w titles) = Inr songs"
    and "ToString w userInput = Inr shown"
    and "generateContent w (FilterPrompt shown (length songs) (FilteredSongsForAI songs))
           = Some filterOutput"
    and "JSON_parse w (clean filterOutput) = Some filterSuggestions"
    and "truthy filterSuggestions"
    and "own_prop filterSuggestions ''mySuggestion'' = JArr mySuggestion"
    and "length mySuggestion \<noteq> length songs"
  shows "snd (smart_search w body) = Response 500 (error ''Suggestion array length mismatch'')
       \<and> (\<forall>status kept. snd (smart_search w body) \<noteq> Response status (suggestedSongs kept))"
proof -
  have "apply_suggestion songs filterSuggestions
      = Response 500 (error ''Suggestion array length mismatch'')"
    using assms(11-13) by (simp add: apply_suggestion_def)
  moreover have "after_search w userInput (FilterSongs w titles)
      = relevance_stage w userInput songs"
    using assms(7) by (simp add: after_search_def)
  ultimately have "snd (smart_search w body)
      = Response 500 (error ''Suggestion array length mismatch'')"
    using smart_search_run [OF assms(1-6)] relevance_stage_run [OF assms(8-10)] by simp
  then show ?thesis by simp
qed

lemma mismatch_songs:
  "finalFilteredSongs mismatch_world (FilterSongs mismatch_world [JStr ''A'', JStr ''B'', JStr ''C''])
     = Inr (replicate 3 (to_candidate (hit ''7'' ''A'' 500000)))"
  by code_simp

theorem alignment_mismatch_fails_witness:
  \<open>member (JObj [(''songs'', JStr ''Shape of You'')]) ''songs'' = Inr (JStr ''Shape of You'')
   \<and> generateContent mismatch_world (SuggestPrompt (JStr ''Shape of You''))
       = Some (fence @ ''json'' @ [newline] @ ''{"songs":["A","B","C"]}'' @ [newline] @ fence)
   \<and> finalFilteredSongs mismatch_world (FilterSongs mismatch_world [JStr ''A'', JStr ''B'', JStr ''C''])
       = Inr (replicate 3 (to_candidate (hit ''7'' ''A'' 500000)))
   \<and> JSON_parse mismatch_world (clean ''{"mySuggestion":[1,0]}'')
       = Some (JObj [(''mySuggestion'', JArr [JNum (Fin 1), JNum (Fin 0)])])
   \<and> length [JNum (Fin 1), JNum (Fin 0)] \<noteq> length (replicate 3 (to_candidate (hit ''7'' ''A'' 500000)))
   \<and> snd (smart_search mismatch_world (JObj [(''songs'', JStr ''Shape of You'')]))
       = Response 500 (error ''Suggestion array length mismatch'')\<close>
proof -
  let ?body = "JObj [(''songs'', JStr ''Shape of You'')]"
  let ?songs = "replicate 3 (to_candidate (hit ''7'' ''A'' 500000))"
  have h1: "member ?body ''songs'' = Inr (JStr ''Shape of You'')"
    by code_simp
  have h2: "JStr ''Shape of You'' = (if truthy (JStr ''Shape of You'') then JStr ''Shape of You'' else JArr [])"
    by simp
  have h3: \<open>generateContent mismatch_world (SuggestPrompt (JStr ''Shape of You''))
       = Some (fence @ ''json'' @ [newline] @ ''{"songs":["A","B","C"]}'' @ [newline] @ fence)\<close>
    by (simp add: mismatch_world_def scenario_def)
  have h4: \<open>JSON_parse mismatch_world
         (clean (fence @ ''json'' @ [newline] @ ''{"songs":["A","B","C"]}'' @ [newline] @ fence))
       = Some (JObj [(''songs'', JArr [JStr ''A'', JStr ''B'', JStr ''C''])])\<close>
    by code_simp
  have h5: "truthy (JObj [(''songs'', JArr [JStr ''A'', JStr ''B'', JStr ''C''])])"
    by simp
  have h6: "own_prop (JObj [(''songs'', JArr [JStr ''A'', JStr ''B'', JStr ''C''])]) ''songs''
       = JArr [JStr ''A'', JStr ''B'', JStr ''C'']"
    by simp
  have h7: "finalFilteredSongs mismatch_world (FilterSongs mismatch_world [JStr ''A'', JStr ''B'', JStr ''C''])
       = Inr ?songs"
    by (rule mismatch_songs)
  have h8: "ToString mismatch_world (JStr ''Shape of You'') = Inr ''Shape of You''"
    by simp
  have h9: \<open>generateContent mismatch_world
         (FilterPrompt ''Shape of You'' (length ?songs) (FilteredSongsForAI ?songs))
       = Some ''{"mySuggestion":[1,0]}''\<close>
    by (simp add: mismatch_world_def scenario_def)
  have h10: \<open>JSON_parse mismatch_world (clean ''{"mySuggestion":[1,0]}'')
       = Some (JObj [(''mySuggestion'', JArr [JNum (Fin 1), JNum (Fin 0)])])\<close>
    by code_simp
  have h11: "truthy (JObj [(''mySuggestion'', JArr [JNum (Fin 1), JNum (Fin 0)])])"
    by simp
  have h12: "own_prop (JObj [(''mySuggestion'', JArr [JNum (Fin 1), JNum (Fin 0)])]) ''mySuggestion''
       = JArr [JNum (Fin 1), JNum (Fin 0)]"
    by simp
  have h13: "length [JNum (Fin 1), JNum (Fin 0)] \<noteq> length ?songs"
    by simp
  show ?thesis
    using alignment_mismatch_fails [OF h1 h2 h3 h4 h5 h6 h7 h8 h9 h10 h11 h12 h13] h1 h3 h7 h10 h13
    by blast
qed


section \<open>Assembling the result\<close>

text \<open>
  C2. For every candidate sequence and every relevance vector of equal length, the assembled
  result consists of exactly the candidates at the indices whose flag is 1, in the original
  order, and is no longer than the candidate sequence. Assembly is a function of the two
  sequences alone, and with a vector of equal length the answer of lines 251-272 is the
  success answer that carries the assembled result.
\<close>

theorem assemble_exactly_flagged:
  assumes "length mySuggestion = length songs"
  shows "actuallyFinalFilteredSongs songs mySuggestion
           = nths songs {i. i < length songs \<and> mySuggestion ! i = JNum (Fin 1)}
       \<and> subseq (actuallyFinalFilteredSongs songs mySuggestion) songs
       \<and> length (actuallyFinalFilteredSongs songs mySuggestion) \<le> length songs
       \<and> apply_suggestion songs (JObj [(''mySuggestion'', JArr mySuggestion)])
           = Response 200 (suggestedSongs
               (nths songs {i. i < length songs \<and> mySuggestion ! i = JNum (Fin 1)}))"
proof -
  have "length (actuallyFinalFilteredSongs songs mySuggestion) \<le> length songs"
    using actually_subseq [of songs mySuggestion] by (rule list_emb_length)
  moreover have "apply_suggestion songs (JObj [(''mySuggestion'', JArr mySuggestion)])
      = Response 200 (suggestedSongs (actuallyFinalFilteredSongs songs mySuggestion))"
    using assms by (simp add: apply_suggestion_def)
  ultimately show ?thesis
    using actually_nths [OF assms] actually_subseq [of songs mySuggestion] by simp
qed

theorem assemble_exactly_flagged_witness:
  "length [JNum (Fin 1), JNum (Fin 0), JNum (Fin 1)]
     = length [to_candidate (hit ''1'' ''A'' 500000), to_candidate (hit ''2'' ''B'' 600000),
               to_candidate (hit ''3'' ''C'' 700000)]
   \<and> actuallyFinalFilteredSongs
       [to_candidate (hit ''1'' ''A'' 500000), to_candidate (hit ''2'' ''B'' 600000),
        to_candidate (hit ''3'' ''C'' 700000)]
       [JNum (Fin 1), JNum (Fin 0), JNum (Fin 1)]
     = [to_candidate (hit ''1'' ''A'' 500000), to_candidate (hit ''3'' ''C'' 700000)]
   \<and> subseq [to_candidate (hit ''1'' ''A'' 500000), to_candidate (hit ''3'' ''C'' 700000)]
       [to_candidate (hit ''1'' ''A'' 500000), to_candidate (hit ''2'' ''B'' 600000),
        to_candidate (hit ''3'' ''C'' 700000)]"
proof -
  let ?songs = "[to_candidate (hit ''1'' ''A'' 500000), to_candidate (hit ''2'' ''B'' 600000),
                 to_candidate (hit ''3'' ''C'' 700000)]"
  let ?flags = "[JNum (Fin 1), JNum (Fin 0), JNum (Fin 1)]"
  have h: "length ?flags = length ?songs"
    by simp
  have v: "actuallyFinalFilteredSongs ?songs ?flags
      = [to_candidate (hit ''1'' ''A'' 500000), to_candidate (hit ''3'' ''C'' 700000)]"
    by (simp add: actuallyFinalFilteredSongs_def element_def)
  show ?thesis
    using assemble_exactly_flagged [OF h] h v by metis
qed

text \<open>
  C9. For every candidate sequence and equal-length relevance vector, a candidate is kept
  only when its flag is strictly the number 1; any other value at its index (0, 2, the
  string "1", \<^verbatim>\<open>null\<close>, a number that is not an integer) drops the candidate and raises no
  error: the answer is the success answer, and the candidate at an index contributes to it
  exactly when its own flag is the number 1.
\<close>

theorem only_the_number_one_keeps:
  assumes "length before = length flags_before"
    and "length after = length flags_after"
    and "truthy filterSuggestions"
    and "own_prop filterSuggestions ''mySuggestion'' = JArr (flags_before @ flag # flags_after)"
  shows "apply_suggestion (before @ candidate # after) filterSuggestions
           = Response 200 (suggestedSongs
               (actuallyFinalFilteredSongs before flags_before
                  @ (if flag = JNum (Fin 1) then [candidate] else [])
                  @ actuallyFinalFilteredSongs after flags_after))"
proof -
  have len: "length (flags_before @ flag # flags_after) = length (before @ candidate # after)"
    using assms(1,2) by simp
  have "actuallyFinalFilteredSongs (before @ candidate # after) (flags_before @ flag # flags_after)
      = actuallyFinalFilteredSongs before flags_before
          @ (if flag = JNum (Fin 1) then [candidate] else [])
          @ actuallyFinalFilteredSongs after flags_after"
    using assms(1,2) by (simp add: actually_zip [OF len] actually_zip)
  then show ?thesis
    using assms(3,4) len by (simp add: apply_suggestion_def)
qed

theorem only_the_number_one_keeps_witness:
  "length (map (\<lambda>n. to_candidate (hit n ''A'' 500000)) [''1'', ''2'', ''3'', ''4''])
     = length [JNum (Fin 0), JNum (Fin 2), JStr ''1'', JNull]
   \<and> length [to_candidate (hit ''6'' ''C'' 500000)] = length [JNum (Fin 1)]
   \<and> truthy (JObj [(''mySuggestion'',
        JArr ([JNum (Fin 0), JNum (Fin 2), JStr ''1'', JNull] @ JNum (Fin (1 / 2)) # [JNum (Fin 1)]))])
   \<and> apply_suggestion
       (map (\<lambda>n. to_candidate (hit n ''A'' 500000)) [''1'', ''2'', ''3'', ''4'']
          @ to_candidate (hit ''5'' ''B'' 500000) # [to_candidate (hit ''6'' ''C'' 500000)])
       (JObj [(''mySuggestion'',
          JArr ([JNum (Fin 0), JNum (Fin 2), JStr ''1'', JNull] @ JNum (Fin (1 / 2)) # [JNum (Fin 1)]))])
     = Response 200 (suggestedSongs [to_candidate (hit ''6'' ''C'' 500000)])"
proof -
  let ?before = "map (\<lambda>n. to_candidate (hit n ''A'' 500000)) [''1'', ''2'', ''3'', ''4'']"
  let ?fb = "[JNum (Fin 0), JNum (Fin 2), JStr ''1'', JNull]"
  let ?fs = "JObj [(''mySuggestion'', JArr (?fb @ JNum (Fin (1 / 2)) # [JNum (Fin 1)]))]"
  have h1: "length ?before = length ?fb"
    by simp
  have h2: "length [to_candidate (hit ''6'' ''C'' 500000)] = length [JNum (Fin 1)]"
    by simp
  have h3: "truthy ?fs"
    by simp
  have h4: "own_prop ?fs ''mySuggestion'' = JArr (?fb @ JNum (Fin (1 / 2)) # [JNum (Fin 1)])"
    by simp
  have v1: "actuallyFinalFilteredSongs ?before ?fb = []"
    by (simp add: actuallyFinalFilteredSongs_def element_def)
  have v2: "actuallyFinalFilteredSongs [to_candidate (hit ''6'' ''C'' 500000)] [JNum (Fin 1)]
      = [to_candidate (hit ''6'' ''C'' 500000)]"
    by (simp add: actuallyFinalFilteredSongs_def element_def)
  have v3: "JNum (Fin (1 / 2)) \<noteq> JNum (Fin 1)"
    by simp
  show ?thesis
    using only_the_number_one_keeps [OF h1 h2 h3 h4, of "to_candidate (hit ''5'' ''B'' 500000)"]
      h1 h2 h3 v1 v2 v3
    by (simp del: list.map truthy.simps)
qed

section \<open>The threshold\<close>

lemma js_error_unique: "(e :: js_error) = TypeError"
  by (cases e) simp

lemma filter_songs_char:
  "filter_songs w xs =
     (if \<exists>s. Some s \<in> set xs \<and> throws w s then Inl TypeError
      else Inr (filter (retained w) (concat (map (\<lambda>x. case x of None \<Rightarrow> [] | Some s \<Rightarrow> [s]) xs))))"
proof (induction w xs rule: filter_songs.induct)
  case (1 w)
  then show ?case by simp
next
  case (2 w songs)
  then show ?case by simp
next
  case (3 w s songs)
  show ?case
  proof (cases "greaterEqual_number w (playCount s) (Fin 90000)")
    case (Inl e)
    then have "throws w s" by (simp add: throws_def)
    then show ?thesis using Inl js_error_unique [of e] by auto
  next
    case (Inr keep)
    then have nt: "\<not> throws w s" and k: "retained w s = keep"
      by (auto simp: throws_def retained_def)
    show ?thesis
      using 3(1) [OF Inr] Inr nt k by (auto split: sum.splits)
  qed
qed

lemma present_flat:
  "concat (map (\<lambda>x. case x of None \<Rightarrow> [] | Some s \<Rightarrow> [s]) (flat rs))
     = concat (map (\<lambda>r. case r of None \<Rightarrow> [] | Some songs \<Rightarrow> songs) rs)"
proof (induction rs)
  case Nil
  then show ?case by (simp add: flat_def)
next
  case (Cons r rs)
  have "concat (map (\<lambda>x. case x of None \<Rightarrow> [] | Some s \<Rightarrow> [s]) (map Some ys)) = ys" for ys :: "'a list"
    by (induction ys) simp_all
  then show ?case using Cons by (cases r) (simp_all add: flat_def)
qed

lemma set_flat:
  "Some s \<in> set (flat rs) \<longleftrightarrow> (\<exists>songs. Some songs \<in> set rs \<and> s \<in> set songs)"
  by (induction rs) (auto simp: flat_def split: option.splits)

lemma finalFilteredSongs_char:
  "finalFilteredSongs w rs =
     (if \<exists>songs. Some songs \<in> set rs \<and> (\<exists>s\<in>set songs. throws w s) then Inl TypeError
      else Inr (concat (map (\<lambda>r. filter (retained w) (case r of None \<Rightarrow> [] | Some songs \<Rightarrow> songs)) rs)))"
proof -
  have "(\<exists>s. Some s \<in> set (flat rs) \<and> throws w s)
      \<longleftrightarrow> (\<exists>songs. Some songs \<in> set rs \<and> (\<exists>s\<in>set songs. throws w s))"
    by (auto simp: set_flat)
  then show ?thesis
    by (simp add: finalFilteredSongs_def filter_songs_char present_flat filter_concat comp_def)
qed

lemma finalFilteredSongs_retained:
  "finalFilteredSongs w rs = Inr songs \<Longrightarrow> s \<in> set songs \<Longrightarrow> retained w s"
  by (auto simp: finalFilteredSongs_char split: if_splits)

lemma retained_number:
  assumes "retained w s" and "playCount s = JNum (Fin q)"
  shows "90000 \<le> q"
  using assms by (simp add: retained_def greaterEqual_number_def)

lemma retained_not_less:
  assumes "retained w s"
  shows "lessThan_number w (playCount s) (Fin 90000) = Inr False"
  using assms by (auto simp: retained_def greaterEqual_number_def lessThan_number_def split: sum.splits)

section \<open>Successful runs\<close>

lemma apply_suggestion_success:
  assumes "apply_suggestion songs filterSuggestions = Response status (suggestedSongs kept)"
  shows "status = 200 \<and> (\<exists>flags. length flags = length songs
           \<and> kept = actuallyFinalFilteredSongs songs flags)"
  using assms by (auto simp: apply_suggestion_def Let_def split: if_splits)

lemma relevance_stage_success:
  assumes "snd (relevance_stage w userInput songs) = Response status (suggestedSongs kept)"
  shows "status = 200 \<and> (\<exists>flags. length flags = length songs
           \<and> kept = actuallyFinalFilteredSongs songs flags)"
proof -
  obtain fs where "apply_suggestion songs fs = Response status (suggestedSongs kept)"
    using assms
    by (auto simp: relevance_stage_def server_error_def Let_def split: sum.splits option.splits)
  then show ?thesis by (rule apply_suggestion_success)
qed

lemma after_search_success:
  assumes "snd (after_search w userInput rs) = Response status (suggestedSongs kept)"
  shows "\<exists>songs flags. finalFilteredSongs w rs = Inr songs \<and> status = 200
           \<and> length flags = length songs \<and> kept = actuallyFinalFilteredSongs songs flags"
proof (cases "finalFilteredSongs w rs")
  case (Inl e)
  then show ?thesis using assms by (simp add: after_search_def server_error_def)
next
  case (Inr songs)
  then have "snd (relevance_stage w userInput songs) = Response status (suggestedSongs kept)"
    using assms by (simp add: after_search_def)
  then show ?thesis using Inr relevance_stage_success by blast
qed

lemma smart_search_success:
  assumes "snd (smart_search w body) = Response status (suggestedSongs kept)"
  shows "\<exists>titles songs flags. finalFilteredSongs w (FilterSongs w titles) = Inr songs
           \<and> status = 200 \<and> length flags = length songs
           \<and> kept = actuallyFinalFilteredSongs songs flags"
proof -
  obtain userInput titles where
    "snd (after_search w userInput (FilterSongs w titles)) = Response status (suggestedSongs kept)"
    using assms
    by (auto simp: smart_search_def server_error_def Let_def split_beta
             split: sum.splits option.splits if_splits)
  then show ?thesis using after_search_success by blast
qed


text \<open>
  C3. For every run of the pipeline, no candidate whose play count is below 90000 appears in
  the final \<^verbatim>\<open>suggestedSongs\<close>: the candidates left after flattening all compare
  \<^verbatim>\<open>>= 90000\<close>, the final result is a subsequence of them, and so every song of the result
  compares \<^verbatim>\<open>>= 90000\<close>, does not compare \<^verbatim>\<open>< 90000\<close>, and when its play count is a
  finite number that number is at least 90000.
\<close>

theorem below_threshold_never_suggested:
  assumes "snd (smart_search w body) = Response status (suggestedSongs kept)"
  shows "(\<exists>titles songs. finalFilteredSongs w (FilterSongs w titles) = Inr songs
            \<and> (\<forall>s\<in>set songs. greaterEqual_number w (playCount s) (Fin 90000) = Inr True)
            \<and> subseq kept songs)
       \<and> (\<forall>s\<in>set kept.
            greaterEqual_number w (playCount s) (Fin 90000) = Inr True
            \<and> lessThan_number w (playCount s) (Fin 90000) = Inr False
            \<and> (\<forall>q. playCount s = JNum (Fin q) \<longrightarrow> 90000 \<le> q))"
proof -
  obtain titles songs flags where
    fin: "finalFilteredSongs w (FilterSongs w titles) = Inr songs"
    and kept: "kept = actuallyFinalFilteredSongs songs flags"
    using smart_search_success [OF assms] by blast
  have sub: "subseq kept songs"
    unfolding kept by (rule actually_subseq)
  have all: "retained w s" if "s \<in> set songs" for s
    using finalFilteredSongs_retained [OF fin that] .
  have "set kept \<subseteq> set songs"
    using sub list_emb_set [of "(=)" kept songs] by blast
  then have keptr: "retained w s" if "s \<in> set kept" for s
    using all that by blast
  have "\<forall>s\<in>set kept.
       greaterEqual_number w (playCount s) (Fin 90000) = Inr True
       \<and> lessThan_number w (playCount s) (Fin 90000) = Inr False
       \<and> (\<forall>q. playCount s = JNum (Fin q) \<longrightarrow> 90000 \<le> q)"
  proof
    fix s
    assume "s \<in> set kept"
    then have r: "retained w s" by (rule keptr)
    have "greaterEqual_number w (playCount s) (Fin 90000) = Inr True"
      using r by (simp add: retained_def)
    moreover have "\<forall>q. playCount s = JNum (Fin q) \<longrightarrow> 90000 \<le> q"
      using retained_number [OF r] by blast
    ultimately show "greaterEqual_number w (playCount s) (Fin 90000) = Inr True
       \<and> lessThan_number w (playCount s) (Fin 90000) = Inr False
       \<and> (\<forall>q. playCount s = JNum (Fin q) \<longrightarrow> 90000 \<le> q)"
      using retained_not_less [OF r] by blast
  qed
  moreover have "\<forall>s\<in>set songs. greaterEqual_number w (playCount s) (Fin 90000) = Inr True"
    using all by (simp add: retained_def)
  ultimately show ?thesis using fin sub by blast
qed

theorem below_threshold_never_suggested_witness:
  "snd (smart_search threshold_world (JObj [(''songs'', JStr ''Shape of You'')]))
     = Response 200 (suggestedSongs [to_candidate (hit ''1'' ''Shape of You'' 500000)])
   \<and> hits (fetch threshold_world 0 (JStr ''Shape of You - Ed Sheeran''))
     = [to_candidate (hit ''1'' ''Shape of You'' 500000),
        to_candidate (hit ''2'' ''Shape of You (Cover)'' 1000)]
   \<and> playCount (to_candidate (hit ''1'' ''Shape of You'' 500000)) = JNum (Fin 500000)
   \<and> greaterEqual_number threshold_world
        (playCount (to_candidate (hit ''1'' ''Shape of You'' 500000))) (Fin 90000) = Inr True
   \<and> lessThan_number threshold_world
        (playCount (to_candidate (hit ''1'' ''Shape of You'' 500000))) (Fin 90000) = Inr False
   \<and> (90000 :: rat) \<le> 500000"
proof -
  let ?s = "to_candidate (hit ''1'' ''Shape of You'' 500000)"
  have h: "snd (smart_search threshold_world (JObj [(''songs'', JStr ''Shape of You'')]))
      = Response 200 (suggestedSongs [?s])"
    by code_simp
  have v: "hits (fetch threshold_world 0 (JStr ''Shape of You - Ed Sheeran''))
      = [?s, to_candidate (hit ''2'' ''Shape of You (Cover)'' 1000)]"
    by code_simp
  have p: "playCount ?s = JNum (Fin 500000)"
    by code_simp
  have "\<forall>s\<in>set [?s].
          greaterEqual_number threshold_world (playCount s) (Fin 90000) = Inr True
          \<and> lessThan_number threshold_world (playCount s) (Fin 90000) = Inr False
          \<and> (\<forall>q. playCount s = JNum (Fin q) \<longrightarrow> 90000 \<le> q)"
    using below_threshold_never_suggested [OF h] by blast
  then have "greaterEqual_number threshold_world (playCount ?s) (Fin 90000) = Inr True
      \<and> lessThan_number threshold_world (playCount ?s) (Fin 90000) = Inr False
      \<and> (\<forall>q. playCount ?s = JNum (Fin q) \<longrightarrow> 90000 \<le> q)"
    by simp
  then show ?thesis
    using h v p by blast
qed

section \<open>The catalog searches\<close>

lemma expected_shape:
  "truthy data \<and> truthy (own_prop data ''data'')
     \<and> isArray (own_prop (own_prop data ''data'') ''results'')
   \<longleftrightarrow> results_of data \<noteq> None"
proof (cases data)
  case (JObj kvs)
  show ?thesis
  proof (cases "map_of kvs ''data''")
    case None
    then show ?thesis using JObj by simp
  next
    case (Some d)
    show ?thesis
    proof (cases d)
      case (JObj dkvs)
      show ?thesis
      proof (cases "map_of dkvs ''results''")
        case None
        then show ?thesis using \<open>data = JObj kvs\<close> Some JObj by simp
      next
        case (Some rs)
        then show ?thesis using \<open>data = JObj kvs\<close> \<open>map_of kvs ''data'' = Some d\<close> JObj
          by (cases rs) simp_all
      qed
    qed (use \<open>data = JObj kvs\<close> Some in simp_all)
  qed
qed simp_all

lemma expected_results:
  "results_of data = Some rs \<Longrightarrow> elems (own_prop (own_prop data ''data'') ''results'') = rs"
  by (cases data) (auto split: option.splits jsval.splits)

lemma per_title_results:
  "(case per_title r of None \<Rightarrow> [] | Some songs \<Rightarrow> songs) = map to_candidate (results r)"
proof (cases r)
  case FetchThrows
  then show ?thesis by simp
next
  case (HttpResponse ok body)
  show ?thesis
  proof (cases body)
    case None
    then show ?thesis using HttpResponse by (cases ok) simp_all
  next
    case (Some data)
    show ?thesis
    proof (cases "results_of data")
      case None
      then have "\<not> (truthy data \<and> truthy (own_prop data ''data'')
                  \<and> isArray (own_prop (own_prop data ''data'') ''results''))"
        using expected_shape [of data] by simp
      then show ?thesis
        using HttpResponse Some None by (cases ok) auto
    next
      case (Some rs)
      then have "truthy data \<and> truthy (own_prop data ''data'')
                  \<and> isArray (own_prop (own_prop data ''data'') ''results'')"
        using expected_shape [of data] by simp
      then show ?thesis
        using HttpResponse \<open>body = Some data\<close> Some expected_results [OF Some]
        by (cases ok) auto
    qed
  qed
qed



lemma slot_contribution:
  "(case snd (search_task w i t) of None \<Rightarrow> [] | Some songs \<Rightarrow> songs) = contribution w i t"
  using per_title_results [of "fetch w i t"]
  by (simp add: search_task_def contribution_def encodable_def split: sum.splits)




lemma finalFilteredSongs_groups:
  "finalFilteredSongs w (map (\<lambda>x. slot x) xs) =
     (if \<exists>x\<in>set xs. \<exists>s\<in>set (case slot x of None \<Rightarrow> [] | Some songs \<Rightarrow> songs). throws w s
      then Inl TypeError
      else Inr (concat (map (\<lambda>x. filter (retained w)
                               (case slot x of None \<Rightarrow> [] | Some songs \<Rightarrow> songs)) xs)))"
proof -
  have "(\<exists>songs. Some songs \<in> set (map slot xs) \<and> (\<exists>s\<in>set songs. throws w s))
      \<longleftrightarrow> (\<exists>x\<in>set xs. \<exists>s\<in>set (case slot x of None \<Rightarrow> [] | Some songs \<Rightarrow> songs). throws w s)"
    by (auto split: option.splits)
  then show ?thesis
    by (simp add: finalFilteredSongs_char comp_def)
qed

lemma finalFilteredSongs_contributions:
  "finalFilteredSongs w (FilterSongs w titles) =
     (if \<exists>(i, t)\<in>set (enumerate 0 titles). \<exists>s\<in>set (contribution w i t). throws w s
      then Inl TypeError
      else Inr (concat (map (\<lambda>(i, t). filter (retained w) (contribution w i t))
                         (enumerate 0 titles))))"
  unfolding FilterSongs_def finalFilteredSongs_groups
  by (simp add: split_def slot_contribution)






text \<open>
  C7. For every title list, the flattened candidate sequence keeps the order: it is the
  concatenation, in the order of the titles, of one group per title, and the group of a
  title holds one candidate for each raw record its search returned, in the catalog's own
  order, thinned by the threshold only. Nothing is removed as a duplicate, neither inside a
  group nor between groups, so a song found under two titles occurs once per title. (The
  sequence exists unless the comparison of some play count throws; a title that cannot be
  put into a query has the empty group.)
\<close>

theorem flattened_in_title_order:
  "finalFilteredSongs w (FilterSongs w titles) =
     (if \<exists>(i, t)\<in>set (enumerate 0 titles).
           \<exists>s\<in>set (if encodable w t then map to_candidate (results (fetch w i t)) else []).
             throws w s
      then Inl TypeError
      else Inr (concat (map (\<lambda>(i, t). filter (retained w)
                               (if encodable w t then map to_candidate (results (fetch w i t))
                                else []))
                         (enumerate 0 titles))))"
  using finalFilteredSongs_contributions [of w titles]
  unfolding contribution_def .

theorem flattened_in_title_order_witness:
  "results (fetch duplicate_world 0 (JStr ''A''))
     = [hit ''7'' ''A'' 500000, hit ''8'' ''A (Demo)'' 10, hit ''7'' ''A'' 500000,
        hit ''9'' ''Z'' 600000]
   \<and> results (fetch duplicate_world 1 (JStr ''A (Live)''))
     = [hit ''7'' ''A'' 500000, hit ''8'' ''A (Demo)'' 10, hit ''7'' ''A'' 500000,
        hit ''9'' ''Z'' 600000]
   \<and> finalFilteredSongs duplicate_world (FilterSongs duplicate_world [JStr ''A'', JStr ''A (Live)''])
     = Inr [to_candidate (hit ''7'' ''A'' 500000), to_candidate (hit ''7'' ''A'' 500000),
            to_candidate (hit ''9'' ''Z'' 600000),
            to_candidate (hit ''7'' ''A'' 500000), to_candidate (hit ''7'' ''A'' 500000),
            to_candidate (hit ''9'' ''Z'' 600000)]
   \<and> concat (map (\<lambda>(i, t). filter (retained duplicate_world)
                    (if encodable duplicate_world t
                     then map to_candidate (results (fetch duplicate_world i t)) else []))
               (enumerate 0 [JStr ''A'', JStr ''A (Live)'']))
     = [to_candidate (hit ''7'' ''A'' 500000), to_candidate (hit ''7'' ''A'' 500000),
        to_candidate (hit ''9'' ''Z'' 600000),
        to_candidate (hit ''7'' ''A'' 500000), to_candidate (hit ''7'' ''A'' 500000),
        to_candidate (hit ''9'' ''Z'' 600000)]"
proof -
  let ?titles = "[JStr ''A'', JStr ''A (Live)'']"
  let ?out = "[to_candidate (hit ''7'' ''A'' 500000), to_candidate (hit ''7'' ''A'' 500000),
            to_candidate (hit ''9'' ''Z'' 600000),
            to_candidate (hit ''7'' ''A'' 500000), to_candidate (hit ''7'' ''A'' 500000),
            to_candidate (hit ''9'' ''Z'' 600000)]"
  have r: "results (fetch duplicate_world 0 (JStr ''A''))
     = [hit ''7'' ''A'' 500000, hit ''8'' ''A (Demo)'' 10, hit ''7'' ''A'' 500000,
        hit ''9'' ''Z'' 600000]"
    "results (fetch duplicate_world 1 (JStr ''A (Live)''))
     = [hit ''7'' ''A'' 500000, hit ''8'' ''A (Demo)'' 10, hit ''7'' ''A'' 500000,
        hit ''9'' ''Z'' 600000]"
    by (simp_all add: duplicate_world_def scenario_def found_def)
  have v: "finalFilteredSongs duplicate_world (FilterSongs duplicate_world ?titles) = Inr ?out"
    by code_simp
  have "Inr ?out =
     (if \<exists>(i, t)\<in>set (enumerate 0 ?titles).
           \<exists>s\<in>set (if encodable duplicate_world t
                    then map to_candidate (results (fetch duplicate_world i t)) else []).
             throws duplicate_world s
      then Inl TypeError
      else Inr (concat (map (\<lambda>(i, t). filter (retained duplicate_world)
                               (if encodable duplicate_world t
                                then map to_candidate (results (fetch duplicate_world i t))
                                else []))
                         (enumerate 0 ?titles))))"
    using flattened_in_title_order [of duplicate_world ?titles] unfolding v .
  then have "concat (map (\<lambda>(i, t). filter (retained duplicate_world)
                    (if encodable duplicate_world t
                     then map to_candidate (results (fetch duplicate_world i t)) else []))
               (enumerate 0 ?titles)) = ?out"
    by (simp split: if_splits del: enumerate_simps)
  then show ?thesis
    using r v by blast
qed

section \<open>Defaults of a candidate\<close>

lemma coalesce_defined: "\<not> nullish b \<Longrightarrow> \<not> nullish (coalesce a b)"
  by (simp add: coalesce_def)

lemma opt_missing: "map_of kvs k = None \<Longrightarrow> opt (JObj kvs) k = JUndefined"
  by (simp add: opt_def nullish_def)

lemma opt_undefined: "opt JUndefined k = JUndefined" "opt_at JUndefined i = JUndefined"
  by (simp_all add: opt_def opt_at_def nullish_def)

lemma opt_child: "opt v k = (case child v (Key k) of None \<Rightarrow> JUndefined | Some u \<Rightarrow> u)"
  by (cases v) (simp_all add: opt_def nullish_def)

lemma opt_at_child: "opt_at v i = (case child v (Index i) of None \<Rightarrow> JUndefined | Some u \<Rightarrow> u)"
  by (cases v) (simp_all add: opt_at_def nullish_def del: index_key.simps)

lemma present_undefined: "present JUndefined path = None"
  by (cases path) simp_all

lemma present_opt: "present (opt v k) path = present v (Key k # path)"
  by (cases "child v (Key k)") (simp_all add: opt_child present_undefined)

lemma present_opt_at: "present (opt_at v i) path = present v (Index i # path)"
  by (cases "child v (Index i)") (simp_all add: opt_at_child present_undefined)

lemma coalesce_present: "coalesce x d = (case present x [] of None \<Rightarrow> d | Some u \<Rightarrow> u)"
  by (auto simp: coalesce_def nullish_def)

text \<open>
  C4 (as the code has it). For every raw catalog record, whatever kind of value it is, each
  field of the candidate other than \<^verbatim>\<open>id\<close> is the value present at the field's path in the
  record, and the field's default when nothing is present there (a key or a nested part is
  missing, or what is found is \<^verbatim>\<open>null\<close>): "Unknown Song" for \<^verbatim>\<open>name\<close>, "Unknown Artist"
  for \<^verbatim>\<open>artists.primary[0].name\<close>, "Unknown Album" for \<^verbatim>\<open>album.name\<close>, "Unknown Language",
  "Unknown Year", play count 0, the placeholder for \<^verbatim>\<open>image[2].url\<close> and no download URLs.
  So none of these eight fields is ever \<^verbatim>\<open>undefined\<close> or \<^verbatim>\<open>null\<close>. The field \<^verbatim>\<open>id\<close> has no
  default: it is the record's \<^verbatim>\<open>id\<close> as it is, \<^verbatim>\<open>undefined\<close> when the record has none.
\<close>

theorem candidate_defaults:
  "title (to_candidate songData)
     = (case present songData [Key ''name''] of None \<Rightarrow> JStr ''Unknown Song'' | Some v \<Rightarrow> v)
   \<and> artist (to_candidate songData)
     = (case present songData [Key ''artists'', Key ''primary'', Index 0, Key ''name''] of
          None \<Rightarrow> JStr ''Unknown Artist'' | Some v \<Rightarrow> v)
   \<and> album (to_candidate songData)
     = (case present songData [Key ''album'', Key ''name''] of
          None \<Rightarrow> JStr ''Unknown Album'' | Some v \<Rightarrow> v)
   \<and> language (to_candidate songData)
     = (case present songData [Key ''language''] of
          None \<Rightarrow> JStr ''Unknown Language'' | Some v \<Rightarrow> v)
   \<and> year (to_candidate songData)
     = (case present songData [Key ''year''] of None \<Rightarrow> JStr ''Unknown Year'' | Some v \<Rightarrow> v)
   \<and> playCount (to_candidate songData)
     = (case present songData [Key ''playCount''] of None \<Rightarrow> JNum (Fin 0) | Some v \<Rightarrow> v)
   \<and> image (to_candidate songData)
     = (case present songData [Key ''image'', Index 2, Key ''url''] of
          None \<Rightarrow> JStr ''https://via.placeholder.com/150'' | Some v \<Rightarrow> v)
   \<and> downloadUrls (to_candidate songData)
     = (case present songData [Key ''downloadUrl''] of None \<Rightarrow> JArr [] | Some v \<Rightarrow> v)
   \<and> song_id (to_candidate songData)
     = (case child songData (Key ''id'') of None \<Rightarrow> JUndefined | Some v \<Rightarrow> v)
   \<and> \<not> nullish (title (to_candidate songData))
   \<and> \<not> nullish (artist (to_candidate songData))
   \<and> \<not> nullish (album (to_candidate songData))
   \<and> \<not> nullish (language (to_candidate songData))
   \<and> \<not> nullish (year (to_candidate songData))
   \<and> \<not> nullish (playCount (to_candidate songData))
   \<and> \<not> nullish (image (to_candidate songData))
   \<and> \<not> nullish (downloadUrls (to_candidate songData))
   \<and> song_id (to_candidate songData) = opt songData ''id''
   \<and> (map_of kvs ''name'' = None \<longrightarrow> title (to_candidate (JObj kvs)) = JStr ''Unknown Song'')
   \<and> (map_of kvs ''artists'' = None \<longrightarrow> artist (to_candidate (JObj kvs)) = JStr ''Unknown Artist'')
   \<and> (map_of kvs ''album'' = None \<longrightarrow> album (to_candidate (JObj kvs)) = JStr ''Unknown Album'')
   \<and> (map_of kvs ''language'' = None
        \<longrightarrow> language (to_candidate (JObj kvs)) = JStr ''Unknown Language'')
   \<and> (map_of kvs ''year'' = None \<longrightarrow> year (to_candidate (JObj kvs)) = JStr ''Unknown Year'')
   \<and> (map_of kvs ''playCount'' = None \<longrightarrow> playCount (to_candidate (JObj kvs)) = JNum (Fin 0))
   \<and> (map_of kvs ''image'' = None
        \<longrightarrow> image (to_candidate (JObj kvs)) = JStr ''https://via.placeholder.com/150'')
   \<and> (map_of kvs ''downloadUrl'' = None \<longrightarrow> downloadUrls (to_candidate (JObj kvs)) = JArr [])
   \<and> (map_of kvs ''id'' = None \<longrightarrow> song_id (to_candidate (JObj kvs)) = JUndefined)"
proof -
  have d: "\<not> nullish (JStr s)" "\<not> nullish (JNum n)" "\<not> nullish (JArr xs)" "\<not> nullish placeholderImage"
    for s n xs
    by (simp_all add: nullish_def placeholderImage_def)
  have defined: "\<not> nullish (title (to_candidate songData))"
    "\<not> nullish (artist (to_candidate songData))"
    "\<not> nullish (album (to_candidate songData))"
    "\<not> nullish (language (to_candidate songData))"
    "\<not> nullish (year (to_candidate songData))"
    "\<not> nullish (playCount (to_candidate songData))"
    "\<not> nullish (image (to_candidate songData))"
    "\<not> nullish (downloadUrls (to_candidate songData))"
    by (simp_all add: to_candidate_def coalesce_defined d)
  have paths: "title (to_candidate songData)
       = (case present songData [Key ''name''] of None \<Rightarrow> JStr ''Unknown Song'' | Some v \<Rightarrow> v)"
    "artist (to_candidate songData)
       = (case present songData [Key ''artists'', Key ''primary'', Index 0, Key ''name''] of
            None \<Rightarrow> JStr ''Unknown Artist'' | Some v \<Rightarrow> v)"
    "album (to_candidate songData)
       = (case present songData [Key ''album'', Key ''name''] of
            None \<Rightarrow> JStr ''Unknown Album'' | Some v \<Rightarrow> v)"
    "language (to_candidate songData)
       = (case present songData [Key ''language''] of
            None \<Rightarrow> JStr ''Unknown Language'' | Some v \<Rightarrow> v)"
    "year (to_candidate songData)
       = (case present songData [Key ''year''] of None \<Rightarrow> JStr ''Unknown Year'' | Some v \<Rightarrow> v)"
    "playCount (to_candidate songData)
       = (case present songData [Key ''playCount''] of None \<Rightarrow> JNum (Fin 0) | Some v \<Rightarrow> v)"
    "image (to_candidate songData)
       = (case present songData [Key ''image'', Index 2, Key ''url''] of
            None \<Rightarrow> JStr ''https://via.placeholder.com/150'' | Some v \<Rightarrow> v)"
    "downloadUrls (to_candidate songData)
       = (case present songData [Key ''downloadUrl''] of None \<Rightarrow> JArr [] | Some v \<Rightarrow> v)"
    by (simp_all only: to_candidate_def candidate.simps coalesce_present present_opt
          present_opt_at placeholderImage_def)
  have ident: "song_id (to_candidate songData)
       = (case child songData (Key ''id'') of None \<Rightarrow> JUndefined | Some v \<Rightarrow> v)"
    by (simp add: to_candidate_def opt_child)
  show ?thesis
    by (intro conjI defined paths ident)
       (simp_all add: to_candidate_def opt_missing opt_undefined coalesce_def nullish_def
          placeholderImage_def)
qed

theorem candidate_defaults_witness:
  "present (JObj [(''name'', JNull), (''artists'', JObj [(''primary'', JArr [])]),
                  (''album'', JObj []), (''image'', JArr [JObj [(''url'', JStr ''small'')]]),
                  (''playCount'', JNull)])
      [Key ''artists'', Key ''primary'', Index 0, Key ''name''] = None
   \<and> to_candidate (JObj [(''name'', JNull), (''artists'', JObj [(''primary'', JArr [])]),
                  (''album'', JObj []), (''image'', JArr [JObj [(''url'', JStr ''small'')]]),
                  (''playCount'', JNull)])
     = \<lparr> title = JStr ''Unknown Song'', song_id = JUndefined, artist = JStr ''Unknown Artist'',
         album = JStr ''Unknown Album'', language = JStr ''Unknown Language'',
         year = JStr ''Unknown Year'', playCount = JNum (Fin 0),
         image = JStr ''https://via.placeholder.com/150'', downloadUrls = JArr [] \<rparr>
   \<and> artist (to_candidate (JStr ''abc'')) = JStr ''Unknown Artist''
   \<and> image (to_candidate (JStr ''abc'')) = JStr ''https://via.placeholder.com/150''
   \<and> present (JObj [(''artists'', JObj [(''primary'', JArr [JObj [(''name'', JStr ''Ed Sheeran'')]])])])
        [Key ''artists'', Key ''primary'', Index 0, Key ''name''] = Some (JStr ''Ed Sheeran'')
   \<and> artist (to_candidate
        (JObj [(''artists'', JObj [(''primary'', JArr [JObj [(''name'', JStr ''Ed Sheeran'')]])])]))
     = JStr ''Ed Sheeran''
   \<and> map_of [(''name'', JStr ''A'')] ''playCount'' = None
   \<and> playCount (to_candidate (JObj [(''name'', JStr ''A'')])) = JNum (Fin 0)"
proof -
  let ?r1 = "JObj [(''name'', JNull), (''artists'', JObj [(''primary'', JArr [])]),
                  (''album'', JObj []), (''image'', JArr [JObj [(''url'', JStr ''small'')]]),
                  (''playCount'', JNull)]"
  let ?r3 = "JObj [(''artists'', JObj [(''primary'', JArr [JObj [(''name'', JStr ''Ed Sheeran'')]])])]"
  have p1: "present ?r1 [Key ''artists'', Key ''primary'', Index 0, Key ''name''] = None"
    by simp
  have p3: "present ?r3 [Key ''artists'', Key ''primary'', Index 0, Key ''name'']
      = Some (JStr ''Ed Sheeran'')"
    by simp
  have p2: "present (JStr ''abc'') [Key ''artists'', Key ''primary'', Index 0, Key ''name''] = None"
    "present (JStr ''abc'') [Key ''image'', Index 2, Key ''url''] = None"
    by simp_all
  have h: "map_of [(''name'', JStr ''A'')] ''playCount'' = None"
    by simp
  have v1: "to_candidate ?r1
     = \<lparr> title = JStr ''Unknown Song'', song_id = JUndefined, artist = JStr ''Unknown Artist'',
         album = JStr ''Unknown Album'', language = JStr ''Unknown Language'',
         year = JStr ''Unknown Year'', playCount = JNum (Fin 0),
         image = JStr ''https://via.placeholder.com/150'', downloadUrls = JArr [] \<rparr>"
    by code_simp
  have a2: "artist (to_candidate (JStr ''abc'')) = JStr ''Unknown Artist''"
    "image (to_candidate (JStr ''abc'')) = JStr ''https://via.placeholder.com/150''"
    using candidate_defaults [of "JStr ''abc''" "[]"] unfolding p2 by simp_all
  have a3: "artist (to_candidate ?r3) = JStr ''Ed Sheeran''"
    using candidate_defaults [of ?r3 "[]"] unfolding p3 by simp
  have a4: "playCount (to_candidate (JObj [(''name'', JStr ''A'')])) = JNum (Fin 0)"
    using candidate_defaults [of JNull "[(''name'', JStr ''A'')]"] h by blast
  show ?thesis
    by (intro conjI p1 v1 a2 p3 a3 h a4)
qed

text \<open>
  C4 as stated fails: a catalog record without \<^verbatim>\<open>id\<close> gives a candidate whose \<^verbatim>\<open>id\<close> is
  \<^verbatim>\<open>undefined\<close>, and the candidate reaches \<^verbatim>\<open>suggestedSongs\<close>.
\<close>

theorem candidate_id_undefined:
  "snd (smart_search no_id_world (JObj [(''songs'', JStr ''A'')]))
     = Response 200 (suggestedSongs
         [to_candidate (JObj [(''name'', JStr ''A''), (''playCount'', JNum (Fin 500000))])])
   \<and> song_id (to_candidate (JObj [(''name'', JStr ''A''), (''playCount'', JNum (Fin 500000))]))
     = JUndefined
   \<and> song_id (to_candidate (JObj [(''id'', JNull), (''name'', JStr ''A'')])) = JNull"
  by code_simp

section \<open>Stripping the fences\<close>

lemma fence_chars: "fence = [CHR 0x60, CHR 0x60, CHR 0x60]"
  by (simp add: fence_def)

lemma prefix_fence_Cons:
  "prefix fence (c # cs) \<longleftrightarrow> c = CHR 0x60 \<and> (\<exists>zs. cs = CHR 0x60 # CHR 0x60 # zs)"
  by (auto simp: fence_chars prefix_def)

lemma replace_fence_hd:
  assumes "replace_fence cs = CHR 0x60 # ys"
  shows "\<exists>zs. cs = CHR 0x60 # zs"
proof (cases cs)
  case Nil
  with assms show ?thesis by simp
next
  case (Cons c cs')
  show ?thesis
  proof (cases "prefix fence (c # cs')")
    case True
    then show ?thesis using Cons by (simp add: prefix_fence_Cons)
  next
    case False
    then show ?thesis using assms Cons by simp
  qed
qed

lemma replace_fence_hd2:
  assumes "replace_fence cs = CHR 0x60 # CHR 0x60 # ys"
  shows "\<exists>zs. cs = CHR 0x60 # CHR 0x60 # zs"
proof (cases cs)
  case Nil
  with assms show ?thesis by simp
next
  case (Cons c cs')
  show ?thesis
  proof (cases "prefix fence (c # cs')")
    case True
    then show ?thesis using Cons by (auto simp: prefix_fence_Cons)
  next
    case False
    then have "c = CHR 0x60" and "replace_fence cs' = CHR 0x60 # ys"
      using assms Cons by simp_all
    then show ?thesis using Cons replace_fence_hd by blast
  qed
qed

lemma no_fence_replace_fence: "\<not> sublist fence (replace_fence u)"
proof (induction u rule: replace_fence.induct)
  case 1
  then show ?case by (simp add: fence_chars)
next
  case (2 c cs)
  show ?case
  proof (cases "prefix fence (c # cs)")
    case True
    then show ?thesis using 2 by simp
  next
    case False
    have "\<not> prefix fence (c # replace_fence cs)"
    proof
      assume "prefix fence (c # replace_fence cs)"
      then obtain zs where "c = CHR 0x60" and "replace_fence cs = CHR 0x60 # CHR 0x60 # zs"
        by (auto simp: prefix_fence_Cons)
      then show False
        using False replace_fence_hd2 [of cs zs] by (auto simp: prefix_fence_Cons)
    qed
    then show ?thesis using False 2 by (simp add: sublist_Cons_right)
  qed
qed

lemma replace_fence_id: "\<not> sublist fence x \<Longrightarrow> replace_fence x = x"
proof (induction x)
  case Nil
  then show ?case by simp
next
  case (Cons c cs)
  then have "\<not> prefix fence (c # cs)" and "\<not> sublist fence cs"
    by (auto simp: sublist_Cons_right)
  then show ?case using Cons.IH by simp
qed

lemma replace_fence_newline_id: "\<not> sublist fence x \<Longrightarrow> replace_fence_newline x = x"
proof (induction x)
  case Nil
  then show ?case by simp
next
  case (Cons c cs)
  then have np: "\<not> prefix fence (c # cs)" and "\<not> sublist fence cs"
    by (auto simp: sublist_Cons_right)
  moreover have "\<not> prefix (fence @ ''json'' @ [newline]) (c # cs)"
    using np prefix_order.trans [OF prefixI [of "fence @ ''json'' @ [newline]" fence "''json'' @ [newline]"]]
    by (meson append_prefixD)
  moreover have "\<not> prefix (fence @ [newline]) (c # cs)"
    using np by (meson append_prefixD)
  ultimately show ?case using Cons.IH by simp
qed

lemma sublist_trim: "sublist (trim t) t"
proof -
  have "suffix (dropWhile white_space t) t"
    by (rule suffix_dropWhile)
  moreover have "prefix (rev (dropWhile white_space (rev (dropWhile white_space t)))) (dropWhile white_space t)"
    by (metis suffix_dropWhile suffix_to_prefix rev_rev_ident)
  ultimately show ?thesis
    unfolding trim_def
    by (meson prefix_imp_sublist suffix_imp_sublist sublist_order.order_trans)
qed

lemma dropWhile_trim: "dropWhile white_space (trim t) = trim t"
proof -
  define a where "a = dropWhile white_space t"
  define b where "b = rev (dropWhile white_space (rev a))"
  have ab: "a = b @ rev (takeWhile white_space (rev a))"
    unfolding b_def by (metis rev_append rev_rev_ident takeWhile_dropWhile_id)
  have "dropWhile white_space b = b"
  proof (cases b)
    case Nil
    then show ?thesis by simp
  next
    case (Cons x xs)
    then have "a \<noteq> []" and "hd a = x" using ab by (metis append_is_Nil_conv list.distinct(1), metis hd_append2 list.sel(1) list.distinct(1))
    then have "\<not> white_space x"
      unfolding a_def using hd_dropWhile by metis
    then show ?thesis using Cons by simp
  qed
  then show ?thesis by (simp add: trim_def a_def b_def)
qed

lemma trim_idem: "trim (trim t) = trim t"
proof -
  have "trim (trim t) = rev (dropWhile white_space (rev (trim t)))"
    by (simp add: trim_def [of "trim t"] dropWhile_trim)
  also have "\<dots> = trim t"
    by (simp add: trim_def dropWhile_idem)
  finally show ?thesis .
qed

lemma clean_idem: "clean (clean s) = clean s"
proof -
  define t where "t = replace_fence (replace_fence_newline s)"
  have "\<not> sublist fence t"
    unfolding t_def by (rule no_fence_replace_fence)
  then have nf: "\<not> sublist fence (trim t)"
    using sublist_trim sublist_order.order_trans by blast
  have "clean (trim t) = trim (trim t)"
    by (simp add: clean_def replace_fence_id replace_fence_newline_id nf)
  then show ?thesis
    by (simp add: clean_def t_def trim_idem)
qed


lemma white_space_not_backtick: "white_space c \<Longrightarrow> c \<noteq> CHR 0x60"
  by (auto simp: white_space_def)

lemma white_space_not_j: "white_space c \<Longrightarrow> c \<noteq> CHR ''j''"
  by (auto simp: white_space_def)

lemma replace_fence_newline_skip:
  "CHR 0x60 \<notin> set pre \<Longrightarrow> replace_fence_newline (pre @ x) = pre @ replace_fence_newline x"
  by (induction pre) (auto simp: fence_chars)

lemma replace_fence_skip:
  "CHR 0x60 \<notin> set pre \<Longrightarrow> replace_fence (pre @ x) = pre @ replace_fence x"
  by (induction pre) (auto simp: fence_chars)

lemma replace_fence_newline_open:
  "lang = [] \<or> lang = ''json'' \<Longrightarrow>
   replace_fence_newline (fence @ lang @ [newline] @ r) = replace_fence_newline r"
  by (auto simp: fence_chars newline_def)

lemma no_straddle:
  assumes "\<not> prefix fence q" and "x \<noteq> CHR 0x60" and "q \<noteq> []"
  shows "\<not> prefix (fence @ [x]) (q @ fence @ r)"
proof (cases q)
  case Nil
  then show ?thesis using assms by simp
next
  case (Cons a q1)
  show ?thesis
  proof (cases q1)
    case Nil
    then show ?thesis using assms Cons by (auto simp: fence_chars)
  next
    case (Cons b q2)
    show ?thesis
    proof (cases q2)
      case Nil
      then show ?thesis using assms \<open>q = a # q1\<close> \<open>q1 = b # q2\<close> by (auto simp: fence_chars)
    next
      case (Cons c q3)
      then show ?thesis using assms \<open>q = a # q1\<close> \<open>q1 = b # q2\<close> by (auto simp: fence_chars)
    qed
  qed
qed

lemma replace_fence_newline_payload:
  "\<not> sublist fence p \<Longrightarrow>
   replace_fence_newline (p @ fence @ r) = p @ replace_fence_newline (fence @ r)"
proof (induction p)
  case Nil
  then show ?case by simp
next
  case (Cons c cs)
  then have np: "\<not> prefix fence (c # cs)" and ns: "\<not> sublist fence cs"
    by (auto simp: sublist_Cons_right)
  have a: "\<not> prefix (fence @ [newline]) ((c # cs) @ fence @ r)"
    by (rule no_straddle [OF np]) (simp_all add: newline_def)
  have "\<not> prefix (fence @ [CHR ''j'']) ((c # cs) @ fence @ r)"
    by (rule no_straddle [OF np]) simp_all
  moreover have "prefix (fence @ [CHR ''j'']) (fence @ ''json'' @ [newline])"
    by simp
  ultimately have b: "\<not> prefix (fence @ ''json'' @ [newline]) ((c # cs) @ fence @ r)"
    using prefix_order.trans by blast
  show ?case using a b Cons.IH [OF ns] by simp
qed

lemma replace_fence_newline_close:
  assumes "\<forall>c\<in>set post. white_space c"
  shows "replace_fence_newline (fence @ post)
       = (if prefix [newline] post then tl post else fence @ post)"
proof -
  have nb: "CHR 0x60 \<notin> set post" using assms white_space_not_backtick by blast
  have id: "replace_fence_newline xs = xs" if "CHR 0x60 \<notin> set xs" for xs
    using replace_fence_newline_skip [of xs "[]"] that by simp
  show ?thesis
  proof (cases post)
    case Nil
    then show ?thesis by (simp add: fence_chars)
  next
    case (Cons d ds)
    then have "d \<noteq> CHR 0x60" "d \<noteq> CHR ''j''" "CHR 0x60 \<notin> set ds"
      using assms nb white_space_not_j by auto
    then show ?thesis using Cons id [of ds] id [of "d # ds"]
      by (auto simp: fence_chars)
  qed
qed

lemma straddle_cases:
  assumes "prefix fence (q @ fence @ r)" and "\<not> prefix fence q" and "q \<noteq> []"
  shows "q = [CHR 0x60] \<or> q = [CHR 0x60, CHR 0x60]"
proof (cases q)
  case Nil
  then show ?thesis using assms by simp
next
  case (Cons a q1)
  show ?thesis
  proof (cases q1)
    case Nil
    then show ?thesis using assms Cons by (auto simp: fence_chars)
  next
    case (Cons b q2)
    show ?thesis
    proof (cases q2)
      case Nil
      then show ?thesis using assms \<open>q = a # q1\<close> \<open>q1 = b # q2\<close> by (auto simp: fence_chars)
    next
      case (Cons c q3)
      then show ?thesis using assms \<open>q = a # q1\<close> \<open>q1 = b # q2\<close> by (auto simp: fence_chars)
    qed
  qed
qed

lemma replace_fence_payload_close:
  assumes "CHR 0x60 \<notin> set post"
  shows "\<not> sublist fence p \<Longrightarrow> replace_fence (p @ fence @ post) = p @ post"
proof (induction p)
  case Nil
  then show ?case using replace_fence_skip [OF assms, of "[]"] by (simp add: fence_chars)
next
  case (Cons c cs)
  then have np: "\<not> prefix fence (c # cs)" and ns: "\<not> sublist fence cs"
    by (auto simp: sublist_Cons_right)
  have id: "replace_fence post = post"
    using replace_fence_skip [OF assms, of "[]"] by simp
  have hd: "\<not> prefix [CHR 0x60] post" using assms by (cases post) auto
  show ?case
  proof (cases "prefix fence ((c # cs) @ fence @ post)")
    case True
    then have "c # cs = [CHR 0x60] \<or> c # cs = [CHR 0x60, CHR 0x60]"
      using straddle_cases np by blast
    then show ?thesis
      using id hd by (cases post) (auto simp: fence_chars)
  next
    case False
    then show ?thesis using Cons.IH [OF ns] by simp
  qed
qed

lemma no_fence_append:
  assumes "\<not> prefix fence q" and "CHR 0x60 \<notin> set post"
  shows "\<not> prefix fence (q @ post)"
proof (cases q)
  case Nil
  then show ?thesis using assms by (cases post) (auto simp: fence_chars)
next
  case (Cons a q1)
  show ?thesis
  proof (cases q1)
    case Nil
    then show ?thesis using assms Cons by (cases post) (auto simp: fence_chars)
  next
    case (Cons b q2)
    show ?thesis
    proof (cases q2)
      case Nil
      then show ?thesis using assms \<open>q = a # q1\<close> \<open>q1 = b # q2\<close>
        by (cases post) (auto simp: fence_chars)
    next
      case (Cons c q3)
      then show ?thesis using assms \<open>q = a # q1\<close> \<open>q1 = b # q2\<close> by (simp add: fence_chars)
    qed
  qed
qed

lemma replace_fence_payload:
  assumes "CHR 0x60 \<notin> set post"
  shows "\<not> sublist fence p \<Longrightarrow> replace_fence (p @ post) = p @ post"
proof (induction p)
  case Nil
  then show ?case using replace_fence_skip [OF assms, of "[]"] by simp
next
  case (Cons c cs)
  then have np: "\<not> prefix fence (c # cs)" and ns: "\<not> sublist fence cs"
    by (auto simp: sublist_Cons_right)
  have "\<not> prefix fence ((c # cs) @ post)"
    by (rule no_fence_append [OF np assms])
  then show ?case using Cons.IH [OF ns] by simp
qed

lemma trim_surrounded:
  assumes "\<forall>c\<in>set pre. white_space c" and "\<forall>c\<in>set post. white_space c"
  shows "trim (pre @ p @ post) = trim p"
proof -
  have a: "dropWhile white_space (pre @ p @ post) = dropWhile white_space (p @ post)"
    using assms(1) by (simp add: dropWhile_append)
  show ?thesis
  proof (cases "\<forall>c\<in>set p. white_space c")
    case True
    have e1: "dropWhile white_space (pre @ p @ post) = []"
      using True assms by (subst dropWhile_eq_Nil_conv) auto
    have e2: "dropWhile white_space p = []"
      using True by (subst dropWhile_eq_Nil_conv) auto
    show ?thesis unfolding trim_def e1 e2 ..
  next
    case False
    then have "dropWhile white_space (p @ post) = dropWhile white_space p @ post"
      by (auto simp: dropWhile_append)
    moreover have "dropWhile white_space (rev post @ y) = dropWhile white_space y" for y
      using assms(2) by (simp add: dropWhile_append)
    ultimately show ?thesis using a by (simp add: trim_def)
  qed
qed

lemma clean_plain: "\<not> sublist fence p \<Longrightarrow> clean p = trim p"
  by (simp add: clean_def replace_fence_id replace_fence_newline_id)

lemma clean_fenced:
  assumes nf: "\<not> sublist fence p"
    and lang: "lang = [] \<or> lang = ''json''"
    and pre: "\<forall>c\<in>set pre. white_space c"
    and post: "\<forall>c\<in>set post. white_space c"
  shows "clean (pre @ fence @ lang @ [newline] @ p @ fence @ post) = trim p"
proof -
  have bpre: "CHR 0x60 \<notin> set pre" and bpost: "CHR 0x60 \<notin> set post"
    using pre post white_space_not_backtick by blast+
  have "replace_fence_newline (pre @ fence @ lang @ [newline] @ p @ fence @ post)
      = pre @ p @ replace_fence_newline (fence @ post)"
    using replace_fence_newline_skip [OF bpre] replace_fence_newline_open [OF lang]
      replace_fence_newline_payload [OF nf] by simp
  also have "\<dots> = pre @ p @ (if prefix [newline] post then tl post else fence @ post)"
    using replace_fence_newline_close [OF post] by simp
  finally have step1: "replace_fence_newline (pre @ fence @ lang @ [newline] @ p @ fence @ post)
      = pre @ p @ (if prefix [newline] post then tl post else fence @ post)" .
  show ?thesis
  proof (cases "prefix [newline] post")
    case True
    then obtain post' where p': "post = newline # post'" by (cases post) auto
    then have b': "CHR 0x60 \<notin> set post'" and w': "\<forall>c\<in>set post'. white_space c"
      using bpost post by auto
    have "replace_fence (pre @ p @ post') = pre @ p @ post'"
      using replace_fence_skip [OF bpre] replace_fence_payload [OF b' nf] by simp
    then show ?thesis
      using step1 True p' trim_surrounded [OF pre w'] by (simp add: clean_def)
  next
    case False
    have "replace_fence (pre @ p @ fence @ post) = pre @ p @ post"
      using replace_fence_skip [OF bpre] replace_fence_payload_close [OF bpost nf] by simp
    then show ?thesis
      using step1 False trim_surrounded [OF pre post] by (simp add: clean_def)
  qed
qed

lemma no_backtick_no_fence: "CHR 0x60 \<notin> set p \<Longrightarrow> \<not> sublist fence p"
  using set_mono_sublist [of fence p] by (auto simp: fence_chars)

text \<open>
  C5 (as the code has it). Cleaning is idempotent on every text. For every payload that
  does not contain three backticks in a row, wrapped in a fence (optional white space, three
  backticks, nothing or "json", a newline, the payload, three backticks, optional white
  space), cleaning the fenced text gives the payload without its surrounding white space,
  which is also what cleaning the unwrapped payload gives; so the fenced and the unwrapped
  text are parsed to the same value.
\<close>

theorem fence_stripping:
  assumes "\<not> sublist fence payload"
    and "lang = [] \<or> lang = ''json''"
    and "\<forall>c\<in>set pre. white_space c"
    and "\<forall>c\<in>set post. white_space c"
  shows "clean (clean reply) = clean reply
       \<and> clean (pre @ fence @ lang @ [newline] @ payload @ fence @ post) = trim payload
       \<and> clean payload = trim payload
       \<and> JSON_parse w (clean (pre @ fence @ lang @ [newline] @ payload @ fence @ post))
           = JSON_parse w (clean payload)
       \<and> (trim payload = payload
            \<longrightarrow> JSON_parse w (clean (pre @ fence @ lang @ [newline] @ payload @ fence @ post))
                  = JSON_parse w payload)"
  using clean_idem [of reply] clean_fenced [OF assms] clean_plain [OF assms(1)] by simp

theorem fence_stripping_witness:
  \<open>\<not> sublist fence (''{"songs":["A","B","C"]}'' @ [newline])
   \<and> clean (fence @ ''json'' @ [newline] @ (''{"songs":["A","B","C"]}'' @ [newline]) @ fence @ [newline])
       = ''{"songs":["A","B","C"]}''
   \<and> clean (''{"songs":["A","B","C"]}'' @ [newline]) = ''{"songs":["A","B","C"]}''
   \<and> clean (clean fenced_reply) = clean fenced_reply\<close>
proof -
  let ?p = \<open>''{"songs":["A","B","C"]}'' @ [newline]\<close>
  have h1: "\<not> sublist fence ?p"
    by (rule no_backtick_no_fence) (simp add: newline_def)
  have h2: "''json'' = [] \<or> ''json'' = ''json''"
    by simp
  have h3: "\<forall>c\<in>set []. white_space c"
    by simp
  have h4: "\<forall>c\<in>set [newline]. white_space c"
    by (simp add: newline_def white_space_def)
  have t: \<open>trim ?p = ''{"songs":["A","B","C"]}''\<close>
    by (simp add: trim_def newline_def white_space_def)
  have "clean (clean fenced_reply) = clean fenced_reply
      \<and> clean ([] @ fence @ ''json'' @ [newline] @ ?p @ fence @ [newline]) = trim ?p
      \<and> clean ?p = trim ?p"
    using fence_stripping [OF h1 h2 h3 h4, of fenced_reply threshold_world] by blast
  then show ?thesis
    using h1 unfolding t by simp
qed

text \<open>
  C5 as stated fails: the payload \<^verbatim>\<open>{"songs":["a```b"]}\<close> is valid JSON, and cleaning its
  fenced form also removes the three backticks inside the title. What is parsed is the text
  \<^verbatim>\<open>{"songs":["ab"]}\<close>, whose value is another one, and the catalog is searched for "ab".
\<close>

theorem fence_stripping_loses_backticks:
  \<open>fenced_reply = fence @ ''json'' @ [newline] @ ''{"songs":["a```b"]}'' @ [newline] @ fence
   \<and> clean fenced_reply = ''{"songs":["ab"]}''
   \<and> clean fenced_reply \<noteq> trim ''{"songs":["a```b"]}''
   \<and> JSON_parse backtick_world (clean fenced_reply) = Some (JObj [(''songs'', JArr [JStr ''ab''])])
   \<and> JSON_parse backtick_world ''{"songs":["a```b"]}''
       = Some (JObj [(''songs'', JArr [JStr ''a```b''])])
   \<and> JSON_parse backtick_world (clean fenced_reply)
       \<noteq> JSON_parse backtick_world ''{"songs":["a```b"]}''
   \<and> take 2 (fst (smart_search backtick_world (JObj [(''songs'', JStr ''a```b'')])))
       = [OracleCall (SuggestPrompt (JStr ''a```b'')), CatalogSearch (JStr ''ab'')]\<close>
  by code_simp

section \<open>The schema check of the first answer\<close>






section \<open>A request without songs\<close>

lemma ToString_empty_array: "ToString w (JArr []) = Inr []"
  by simp

lemma relevance_stage_events:
  "ToString w userInput = Inr shown \<Longrightarrow>
   fst (relevance_stage w userInput songs)
     = [OracleCall (FilterPrompt shown (length songs) (FilteredSongsForAI songs))]"
  by (simp add: relevance_stage_def Let_def FilteredSongsForAI_def split: option.splits)

lemma smart_search_first_event:
  "member body ''songs'' = Inr given \<Longrightarrow>
   \<exists>rest. fst (smart_search w body)
     = OracleCall (SuggestPrompt (if truthy given then given else JArr [])) # rest"
  by (simp add: smart_search_def Let_def split_beta split: option.splits)

text \<open>
  C10. For every request whose body has no "songs" field, or a falsy one, the request is
  not rejected as invalid: the user input is the empty array, the handler does exactly what
  it does for a body whose "songs" is the empty array, the first oracle call is made with
  the empty array, and when the first answer gives titles and the threshold filter does not
  throw the second oracle call is made as well, after the searches for the titles that can
  be put into a query.
\<close>

theorem missing_songs_means_empty_array:
  assumes "\<not> nullish body"
    and "\<not> truthy (own_prop body ''songs'')"
  shows "smart_search w body = smart_search w (JObj [(''songs'', JArr [])])
       \<and> (\<exists>rest. fst (smart_search w body) = OracleCall (SuggestPrompt (JArr [])) # rest)
       \<and> (generateContent w (SuggestPrompt (JArr [])) = Some output
            \<and> JSON_parse w (clean output) = Some suggestions
            \<and> truthy suggestions
            \<and> own_prop suggestions ''songs'' = JArr titles
            \<and> finalFilteredSongs w (FilterSongs w titles) = Inr songs
          \<longrightarrow> fst (smart_search w body)
                = OracleCall (SuggestPrompt (JArr []))
                    # map CatalogSearch (filter (encodable w) titles)
                    @ [OracleCall (FilterPrompt [] (length songs) (FilteredSongsForAI songs))])"
proof -
  have m: "member body ''songs'' = Inr (own_prop body ''songs'')"
    using assms(1) by (simp add: member_def)
  have u: "JArr [] = (if truthy (own_prop body ''songs'') then own_prop body ''songs'' else JArr [])"
    using assms(2) by simp
  have same: "smart_search w body = smart_search w (JObj [(''songs'', JArr [])])"
    using assms by (simp add: smart_search_def member_def nullish_def)
  have first: "\<exists>rest. fst (smart_search w body) = OracleCall (SuggestPrompt (JArr [])) # rest"
    using smart_search_first_event [OF m, of w] assms(2) by simp
  have both: "fst (smart_search w body)
      = OracleCall (SuggestPrompt (JArr [])) # map CatalogSearch (filter (encodable w) titles)
          @ [OracleCall (FilterPrompt [] (length songs) (FilteredSongsForAI songs))]"
    if "generateContent w (SuggestPrompt (JArr [])) = Some output"
      and "JSON_parse w (clean output) = Some suggestions"
      and "truthy suggestions"
      and "own_prop suggestions ''songs'' = JArr titles"
      and "finalFilteredSongs w (FilterSongs w titles) = Inr songs"
  proof -
    have "after_search w (JArr []) (FilterSongs w titles) = relevance_stage w (JArr []) songs"
      using that(5) by (simp add: after_search_def)
    then show ?thesis
      using smart_search_run [OF m u that(1-4)]
        relevance_stage_events [OF ToString_empty_array, of w songs]
      by (simp add: requests_encodable)
  qed
  show ?thesis
    using same first both by blast
qed

theorem missing_songs_means_empty_array_witness:
  "\<not> nullish (JObj [(''query'', JStr ''anything'')])
   \<and> \<not> truthy (own_prop (JObj [(''query'', JStr ''anything'')]) ''songs'')
   \<and> smart_search threshold_world (JObj [(''query'', JStr ''anything'')])
       = smart_search threshold_world (JObj [(''songs'', JArr [])])
   \<and> smart_search threshold_world (JObj [(''query'', JStr ''anything'')])
       = ([OracleCall (SuggestPrompt (JArr [])),
           CatalogSearch (JStr ''Shape of You - Ed Sheeran''),
           OracleCall (FilterPrompt [] 1
             (FilteredSongsForAI [to_candidate (hit ''1'' ''Shape of You'' 500000)]))],
          Response 200 (suggestedSongs [to_candidate (hit ''1'' ''Shape of You'' 500000)]))"
proof -
  have h1: "\<not> nullish (JObj [(''query'', JStr ''anything'')])"
    by (simp add: nullish_def)
  have h2: "\<not> truthy (own_prop (JObj [(''query'', JStr ''anything'')]) ''songs'')"
    by simp
  have v: "smart_search threshold_world (JObj [(''query'', JStr ''anything'')])
       = ([OracleCall (SuggestPrompt (JArr [])),
           CatalogSearch (JStr ''Shape of You - Ed Sheeran''),
           OracleCall (FilterPrompt [] 1
             (FilteredSongsForAI [to_candidate (hit ''1'' ''Shape of You'' 500000)]))],
          Response 200 (suggestedSongs [to_candidate (hit ''1'' ''Shape of You'' 500000)]))"
    by code_simp
  show ?thesis
    using missing_songs_means_empty_array [OF h1 h2, of threshold_world] h1 h2 v by blast
qed

end
